theory Spec2Isabelle
  imports Complex_Main "HOL-Library.Word"
begin

unbundle bit_operations_syntax

section \<open>SshFileSystemProvider: the remote filesystem provider\<close>

subsection \<open>Thrown values and their classification\<close>

text \<open>
  What a rejected SFTP callback or a \<^verbatim>\<open>throw\<close> carries is \<^verbatim>\<open>unknown\<close> to the provider.
  \<^verbatim>\<open>getErrorCode\<close> looks at it only through
  \<^verbatim>\<open>typeof error === 'object' && error !== null && 'code' in error\<close> and the type of
  \<^verbatim>\<open>error.code\<close>, so a thrown value is either an object, with or without a \<^verbatim>\<open>code\<close>
  property, or something that is not an object. A numeric code is an integer here (the SFTP
  status codes are); \<^verbatim>\<open>String(code)\<close> of an integer below \<open>10^21\<close> is its decimal
  notation. From \<open>10^21\<close> on JavaScript prints an exponent, and a code that is not an
  integer prints a fraction; neither string is one the classification compares with, as
  no decimal notation of such a number is either.
\<close>

datatype code_value = CodeNumber int | CodeString string | CodeOther

datatype thrown = ErrorObject "code_value option" string | NotAnObject

datatype SftpErrorKind = not_found | transient | permanent

definition digit_char :: "nat \<Rightarrow> char" where
  "digit_char d =
     (if d = 0 then CHR ''0'' else if d = 1 then CHR ''1'' else if d = 2 then CHR ''2''
      else if d = 3 then CHR ''3'' else if d = 4 then CHR ''4'' else if d = 5 then CHR ''5''
      else if d = 6 then CHR ''6'' else if d = 7 then CHR ''7'' else if d = 8 then CHR ''8''
      else CHR ''9'')"

fun decimal :: "nat \<Rightarrow> string" where
  "decimal n = (if n < 10 then [digit_char n] else decimal (n div 10) @ [digit_char (n mod 10)])"

declare decimal.simps [simp del]

definition String_of_number :: "int \<Rightarrow> string" where
  "String_of_number n = (if n < 0 then CHR ''-'' # decimal (nat (- n)) else decimal (nat n))"

fun getErrorCode :: "thrown \<Rightarrow> string" where
  "getErrorCode (ErrorObject (Some (CodeNumber n)) msg) = String_of_number n"
| "getErrorCode (ErrorObject (Some (CodeString s)) msg) = s"
| "getErrorCode (ErrorObject (Some CodeOther) msg) = ''''"
| "getErrorCode (ErrorObject None msg) = ''''"
| "getErrorCode NotAnObject = ''''"

definition isNotFoundError :: "thrown \<Rightarrow> bool" where
  "isNotFoundError error = (let code = getErrorCode error in code = ''2'' \<or> code = ''ENOENT'')"

definition isRetryableError :: "thrown \<Rightarrow> bool" where
  "isRetryableError error =
     (let code = getErrorCode error in
        code = ''4'' \<or> code = ''EAGAIN'' \<or> code = ''ECONNRESET'' \<or> code = ''ETIMEDOUT''
        \<or> code = ''EPIPE'')"

definition classifySftpError :: "thrown \<Rightarrow> SftpErrorKind" where
  "classifySftpError error =
     (if isNotFoundError error then not_found
      else if isRetryableError error then transient
      else permanent)"

subsection \<open>The SFTP channel and the results of the provider\<close>

text \<open>
  The channel is outside the program. An operation of the provider sends it one request per
  attempt, so the channel is given by its reply to the \<open>k\<close>-th request of the operation
  (\<open>k = 1, 2, 3\<close>): \<open>Inl\<close> the error passed to the callback, \<open>Inr\<close> the data.
  \<^verbatim>\<open>createReadStream\<close> of the channel either returns a stream or throws.
\<close>

record Stats =
  stats_mode :: "32 word"
  stats_size :: nat
  stats_mtime :: "int option"

record FileEntry =
  entry_filename :: string
  entry_mode :: "32 word"
  entry_size :: "nat option"
  entry_mtime :: "int option"

record FsStatResult =
  fs_size :: nat
  fs_mtimeMs :: int
  fs_birthtimeMs :: int
  fs_isFile :: bool
  fs_isDirectory :: bool

record FsDirent =
  dirent_name :: string
  dirent_isFile :: bool
  dirent_isDirectory :: bool
  dirent_size :: "nat option"
  dirent_mtimeMs :: "int option"
  dirent_birthtimeMs :: "int option"

record ReadStreamOptions =
  opt_start :: "nat option"
  opt_encoding :: "string option"

record SFTPWrapper =
  sftp_readFile :: "string \<Rightarrow> string \<Rightarrow> nat \<Rightarrow> thrown + string"
  sftp_stat :: "string \<Rightarrow> nat \<Rightarrow> thrown + Stats"
  sftp_readdir :: "string \<Rightarrow> nat \<Rightarrow> thrown + FileEntry list"
  sftp_createReadStream :: "string \<Rightarrow> nat option \<Rightarrow> string option \<Rightarrow> thrown + nat"

text \<open>What an operation did on the way: the requests it sent and the sleeps between them.\<close>

datatype io_event = Request nat | Sleep nat

definition MAX_RETRIES :: nat where
  "MAX_RETRIES = 3"

definition RETRY_BASE_DELAY_MS :: nat where
  "RETRY_BASE_DELAY_MS = 75"

definition S_IFMT :: "32 word" where
  "S_IFMT = 0xF000"

definition S_IFREG :: "32 word" where
  "S_IFREG = 0x8000"

definition S_IFDIR :: "32 word" where
  "S_IFDIR = 0x4000"

subsection \<open>The retry loop of readFile, stat and readdir\<close>

text \<open>
  The three operations run the same loop
  \<^verbatim>\<open>for (let attempt = 1; attempt <= MAX_RETRIES; attempt++) { try { return await ... }
  catch (error) { lastError = error; if (classify(error) === 'transient' && attempt < MAX_RETRIES)
  { await sleep(RETRY_BASE_DELAY_MS * attempt); continue; } throw error; } }\<close>
  followed by \<^verbatim>\<open>throw lastError instanceof Error ? lastError : new Error(msg)\<close>.
  \<open>retryLoop\<close> is that loop from a given value of \<open>attempt\<close>; \<open>call\<close> is the promise
  built in the \<^verbatim>\<open>try\<close> block, and the events are listed in the order they happen.
\<close>

function retryLoop ::
  "(nat \<Rightarrow> thrown + 'a) \<Rightarrow> string \<Rightarrow> nat \<Rightarrow> thrown option \<Rightarrow> (thrown + 'a) \<times> io_event list"
where
  "retryLoop call failMsg attempt lastError =
     (if attempt \<le> MAX_RETRIES then
        (case call attempt of
           Inr v \<Rightarrow> (Inr v, [Request attempt])
         | Inl error \<Rightarrow>
             if classifySftpError error = transient \<and> attempt < MAX_RETRIES
             then (case retryLoop call failMsg (attempt + 1) (Some error) of
                     (r, evs) \<Rightarrow>
                       (r, Request attempt # Sleep (RETRY_BASE_DELAY_MS * attempt) # evs))
             else (Inl error, [Request attempt]))
      else
        (Inl (case lastError of
                Some (ErrorObject c m) \<Rightarrow> ErrorObject c m
              | _ \<Rightarrow> ErrorObject None failMsg), []))"
  by pat_completeness auto
termination
  by (relation "measure (\<lambda>(call, failMsg, attempt, lastError). Suc MAX_RETRIES - attempt)") auto

declare retryLoop.simps [simp del]

definition readFile :: "SFTPWrapper \<Rightarrow> string \<Rightarrow> string \<Rightarrow> (thrown + string) \<times> io_event list" where
  "readFile sftp filePath encoding =
     retryLoop (sftp_readFile sftp filePath encoding) (''Failed to read file: '' @ filePath) 1 None"

text \<open>
  Times are integers here; the source's numbers are doubles, exact up to \<open>2^53\<close>.
\<close>

definition toStatResult :: "Stats \<Rightarrow> FsStatResult" where
  "toStatResult stats =
     (let mode = stats_mode stats in
      \<lparr> fs_size = stats_size stats,
        fs_mtimeMs = (case stats_mtime stats of Some t \<Rightarrow> t | None \<Rightarrow> 0) * 1000,
        fs_birthtimeMs = (case stats_mtime stats of Some t \<Rightarrow> t | None \<Rightarrow> 0) * 1000,
        fs_isFile = (mode AND S_IFMT = S_IFREG),
        fs_isDirectory = (mode AND S_IFMT = S_IFDIR) \<rparr>)"

definition stat :: "SFTPWrapper \<Rightarrow> string \<Rightarrow> (thrown + FsStatResult) \<times> io_event list" where
  "stat sftp filePath =
     retryLoop (\<lambda>attempt. map_sum id toStatResult (sftp_stat sftp filePath attempt))
       (''Failed to stat: '' @ filePath) 1 None"

definition buildDirent ::
  "string \<Rightarrow> 32 word \<Rightarrow> 32 word \<Rightarrow> 32 word \<Rightarrow> 32 word \<Rightarrow> nat option \<Rightarrow> int option \<Rightarrow> FsDirent"
where
  "buildDirent filename mode sifmt sifreg sifdir sz mtimeSeconds =
     (let mtimeMs = map_option (\<lambda>t. t * 1000) mtimeSeconds in
      \<lparr> dirent_name = filename,
        dirent_isFile = (mode AND sifmt = sifreg),
        dirent_isDirectory = (mode AND sifmt = sifdir),
        dirent_size = sz,
        dirent_mtimeMs = mtimeMs,
        dirent_birthtimeMs = mtimeMs \<rparr>)"

definition toDirents :: "FileEntry list \<Rightarrow> FsDirent list" where
  "toDirents list =
     map (\<lambda>item. buildDirent (entry_filename item) (entry_mode item) S_IFMT S_IFREG S_IFDIR
                   (entry_size item) (entry_mtime item)) list"

definition readdir :: "SFTPWrapper \<Rightarrow> string \<Rightarrow> (thrown + FsDirent list) \<times> io_event list" where
  "readdir sftp dirPath =
     retryLoop (\<lambda>attempt. map_sum id toDirents (sftp_readdir sftp dirPath attempt))
       (''Failed to read directory: '' @ dirPath) 1 None"

text \<open>A reply that is an error classified transient.\<close>

definition transientReply :: "thrown + 'a \<Rightarrow> bool" where
  "transientReply r = (case r of Inl e \<Rightarrow> classifySftpError e = transient | Inr v \<Rightarrow> False)"

subsection \<open>exists\<close>

text \<open>
  \<^verbatim>\<open>exists\<close> awaits \<^verbatim>\<open>stat\<close> and turns every outcome into a boolean; the events are
  those of the \<^verbatim>\<open>stat\<close> call.
\<close>

definition exists :: "SFTPWrapper \<Rightarrow> string \<Rightarrow> (thrown + bool) \<times> io_event list" where
  "exists sftp filePath =
     (case stat sftp filePath of
        (Inr st, evs) \<Rightarrow> (Inr True, evs)
      | (Inl error, evs) \<Rightarrow>
          (let errorKind = classifySftpError error in
           if errorKind = not_found then (Inr False, evs)
           else if errorKind = transient then (Inr True, evs)
           else (Inr False, evs)))"

subsection \<open>createReadStream\<close>

text \<open>
  Streams are objects that change after they are returned, so the Node runtime is explicit:
  the \<^verbatim>\<open>PassThrough\<close> objects created so far (a stream is named by its index), the pipes
  from a channel stream into a \<^verbatim>\<open>PassThrough\<close> with the \<^verbatim>\<open>'error'\<close> listener the
  provider registers, and the callbacks queued with \<^verbatim>\<open>process.nextTick\<close>; the provider
  queues only \<^verbatim>\<open>() => errStream.destroy(err)\<close>. The callbacks run after the synchronous
  code that queued them has returned.
\<close>

datatype stream_state = Flowing | Destroyed thrown

record Runtime =
  rt_streams :: "stream_state list"
  rt_pipes :: "(nat \<times> nat) list"
  rt_nextTick :: "(nat \<times> thrown) list"
  rt_log :: "string list"

definition newPassThrough :: "Runtime \<Rightarrow> nat \<times> Runtime" where
  "newPassThrough rt = (length (rt_streams rt), rt\<lparr>rt_streams := rt_streams rt @ [Flowing]\<rparr>)"

definition destroy :: "nat \<Rightarrow> thrown \<Rightarrow> Runtime \<Rightarrow> Runtime" where
  "destroy s err rt =
     (if s < length (rt_streams rt) \<and> rt_streams rt ! s = Flowing
      then rt\<lparr>rt_streams := (rt_streams rt)[s := Destroyed err]\<rparr>
      else rt)"

text \<open>\<^verbatim>\<open>opts?.start\<close> and \<^verbatim>\<open>opts?.encoding ?? undefined\<close>.\<close>

definition optStart :: "ReadStreamOptions option \<Rightarrow> nat option" where
  "optStart opts = (case opts of None \<Rightarrow> None | Some opt \<Rightarrow> opt_start opt)"

definition optEncoding :: "ReadStreamOptions option \<Rightarrow> string option" where
  "optEncoding opts = (case opts of None \<Rightarrow> None | Some opt \<Rightarrow> opt_encoding opt)"

definition createReadStream ::
  "SFTPWrapper \<Rightarrow> string \<Rightarrow> ReadStreamOptions option \<Rightarrow> Runtime \<Rightarrow> (thrown + nat) \<times> Runtime"
where
  "createReadStream sftp filePath opts rt =
     (case sftp_createReadStream sftp filePath (optStart opts) (optEncoding opts) of
        Inr sftpStream \<Rightarrow>
          (case newPassThrough rt of
             (passthrough, rt1) \<Rightarrow>
               (Inr passthrough, rt1\<lparr>rt_pipes := rt_pipes rt1 @ [(sftpStream, passthrough)]\<rparr>))
      | Inl err \<Rightarrow>
          (case newPassThrough
                  (rt\<lparr>rt_log := rt_log rt @ [''Error creating read stream for '' @ filePath]\<rparr>) of
             (errStream, rt1) \<Rightarrow>
               (Inr errStream, rt1\<lparr>rt_nextTick := rt_nextTick rt1 @ [(errStream, err)]\<rparr>)))"

text \<open>
  The state of a stream, \<open>None\<close> for an index no stream has. A queued callback closes over
  a stream that exists: \<open>queueRefersToStreams\<close>.
\<close>

definition streamState :: "Runtime \<Rightarrow> nat \<Rightarrow> stream_state option" where
  "streamState rt s = (if s < length (rt_streams rt) then Some (rt_streams rt ! s) else None)"

definition queueRefersToStreams :: "Runtime \<Rightarrow> bool" where
  "queueRefersToStreams rt = list_all (\<lambda>(s, err). s < length (rt_streams rt)) (rt_nextTick rt)"

text \<open>The next tick: the queued callbacks run in the order they were queued.\<close>

definition runNextTicks :: "Runtime \<Rightarrow> Runtime" where
  "runNextTicks rt = fold (\<lambda>(s, err). destroy s err) (rt_nextTick rt) (rt\<lparr>rt_nextTick := []\<rparr>)"

text \<open>The channel stream \<open>src\<close> emits \<^verbatim>\<open>'error'\<close>: the listeners of its pipes run.\<close>

definition emitError :: "nat \<Rightarrow> thrown \<Rightarrow> Runtime \<Rightarrow> Runtime" where
  "emitError src err rt =
     fold (\<lambda>(s, passthrough). if s = src then destroy passthrough err else id) (rt_pipes rt) rt"

section \<open>The renderer's workspace state and context snapshots\<close>

text \<open>
  The types \<^verbatim>\<open>Project\<close>, \<^verbatim>\<open>RepositoryGroup\<close>, \<^verbatim>\<open>Session\<close>, \<^verbatim>\<open>DetectedError\<close>,
  \<^verbatim>\<open>Tab\<close> and \<^verbatim>\<open>Pane\<close> are imported by the snapshot code; their fields here are the ones
  that code reads or writes. An id that may be \<^verbatim>\<open>null\<close> or missing is an \<open>option\<close>.
\<close>

record Project =
  project_id :: string

record Worktree =
  worktree_id :: string

record RepositoryGroup =
  repo_id :: string
  repo_worktrees :: "Worktree list"

record Session =
  session_id :: string

record DetectedError =
  detected_id :: string

record Tab =
  tab_id :: string
  tab_type :: string
  tab_projectId :: "string option"

record Pane =
  pane_id :: string
  pane_tabs :: "Tab list"
  pane_activeTabId :: "string option"
  pane_selectedTabIds :: "string list"
  pane_widthFraction :: rat

record PaneLayout =
  panes :: "Pane list"
  focusedPaneId :: string

datatype ViewMode = flat | grouped

text \<open>
  The fields a snapshot and the application state share, under the names both have in the
  source. A \<^verbatim>\<open>Partial<AppState>\<close> with exactly these fields is a \<open>Workspace\<close>.
\<close>

record Workspace =
  projects :: "Project list"
  selectedProjectId :: "string option"
  repositoryGroups :: "RepositoryGroup list"
  selectedRepositoryId :: "string option"
  selectedWorktreeId :: "string option"
  viewMode :: ViewMode
  sessions :: "Session list"
  selectedSessionId :: "string option"
  sessionsCursor :: "string option"
  sessionsHasMore :: bool
  sessionsTotalCount :: nat
  pinnedSessionIds :: "string list"
  notifications :: "DetectedError list"
  unreadCount :: nat
  openTabs :: "Tab list"
  activeTabId :: "string option"
  selectedTabIds :: "string list"
  activeProjectId :: "string option"
  paneLayout :: PaneLayout
  sidebarCollapsed :: bool

record Metadata =
  meta_contextId :: string
  meta_capturedAt :: int
  meta_version :: nat

record ContextSnapshot = Workspace +
  metadata :: Metadata

record ContextInfo =
  context_id :: string
  context_type :: string

record AppState = Workspace +
  activeContextId :: string
  isContextSwitching :: bool
  targetContextId :: "string option"
  contextSnapshotsReady :: bool
  availableContexts :: "ContextInfo list"

record StoredSnapshot =
  stored_snapshot :: ContextSnapshot
  stored_timestamp :: int
  stored_version :: nat

section \<open>contextStorage: snapshots in IndexedDB\<close>

text \<open>
  The store (idb-keyval) maps keys to stored records. It is outside the program and each of
  its operations may reject; which ones do is given by \<open>IdbFaults\<close>. Every function of
  \<^verbatim>\<open>contextStorage\<close> catches such a rejection and logs it. \<open>World\<close> is what the renderer
  acts on: the store, and the list of requests sent out so far, oldest first.
\<close>

datatype effect =
    IdbSet string
  | IdbGet string
  | IdbDel string
  | ContextSwitch string
  | GetProjects
  | GetRepositoryGroups
  | FetchNotifications
  | ConsoleError string

record IdbFaults =
  set_rejects :: bool
  get_rejects :: bool
  del_rejects :: bool

record World =
  idb :: "string \<rightharpoonup> StoredSnapshot"
  effects :: "effect list"

definition SNAPSHOT_TTL_MS :: int where
  "SNAPSHOT_TTL_MS = 5 * 60 * 1000"

definition STORAGE_KEY_PREFIX :: string where
  "STORAGE_KEY_PREFIX = ''context-snapshot:''"

definition SNAPSHOT_VERSION :: nat where
  "SNAPSHOT_VERSION = 1"

definition emit :: "effect \<Rightarrow> World \<Rightarrow> World" where
  "emit e w = w\<lparr>effects := effects w @ [e]\<rparr>"

definition saveSnapshot :: "IdbFaults \<Rightarrow> int \<Rightarrow> string \<Rightarrow> ContextSnapshot \<Rightarrow> World \<Rightarrow> World" where
  "saveSnapshot faults now contextId snapshot w =
     (let stored = \<lparr> stored_snapshot = snapshot, stored_timestamp = now,
                     stored_version = SNAPSHOT_VERSION \<rparr>;
          key = STORAGE_KEY_PREFIX @ contextId;
          w1 = emit (IdbSet key) w
      in if set_rejects faults
         then emit (ConsoleError (''[contextStorage] Failed to save snapshot for '' @ contextId)) w1
         else w1\<lparr>idb := (idb w1)(key \<mapsto> stored)\<rparr>)"

definition deleteSnapshot :: "IdbFaults \<Rightarrow> string \<Rightarrow> World \<Rightarrow> World" where
  "deleteSnapshot faults contextId w =
     (let key = STORAGE_KEY_PREFIX @ contextId;
          w1 = emit (IdbDel key) w
      in if del_rejects faults
         then emit (ConsoleError (''[contextStorage] Failed to delete snapshot for '' @ contextId)) w1
         else w1\<lparr>idb := (idb w1)(key := None)\<rparr>)"

text \<open>
  \<^verbatim>\<open>loadSnapshot\<close> calls \<^verbatim>\<open>void deleteSnapshot(contextId)\<close>: the \<^verbatim>\<open>del\<close> request is sent
  before \<^verbatim>\<open>loadSnapshot\<close> returns and nothing waits for it. The store serves its requests
  in the order they were sent, so the world returned here is the one every later request
  sees.
\<close>

definition loadSnapshot ::
  "IdbFaults \<Rightarrow> int \<Rightarrow> string \<Rightarrow> World \<Rightarrow> ContextSnapshot option \<times> World"
where
  "loadSnapshot faults now contextId w =
     (let key = STORAGE_KEY_PREFIX @ contextId;
          w1 = emit (IdbGet key) w
      in if get_rejects faults
         then (None, emit (ConsoleError (''[contextStorage] Failed to load snapshot for '' @ contextId)) w1)
         else
           (case idb w1 key of
              None \<Rightarrow> (None, w1)
            | Some stored \<Rightarrow>
                (let age = now - stored_timestamp stored in
                 if age > SNAPSHOT_TTL_MS then (None, deleteSnapshot faults contextId w1)
                 else if stored_version stored \<noteq> SNAPSHOT_VERSION
                 then (None,
                       deleteSnapshot faults contextId
                         (emit (ConsoleError (''[contextStorage] Snapshot version mismatch for '' @ contextId)) w1))
                 else (Some (stored_snapshot stored), w1))))"

section \<open>contextSlice: validating, capturing and switching\<close>

subsection \<open>validateSnapshot\<close>

text \<open>
  \<^verbatim>\<open>x && ids.has(x)\<close> for an id \<open>x\<close> that may be \<^verbatim>\<open>null\<close>: the empty string is falsy
  too. \<^verbatim>\<open>xs[0]?.id ?? null\<close> is \<open>firstTabId\<close>.
\<close>

definition truthy :: "string option \<Rightarrow> bool" where
  "truthy x = (case x of None \<Rightarrow> False | Some s \<Rightarrow> s \<noteq> [])"

definition hasId :: "string set \<Rightarrow> string option \<Rightarrow> bool" where
  "hasId ids x = (case x of None \<Rightarrow> False | Some s \<Rightarrow> s \<in> ids)"

definition firstTabId :: "Tab list \<Rightarrow> string option" where
  "firstTabId tabs = (case tabs of [] \<Rightarrow> None | t # _ \<Rightarrow> Some (tab_id t))"

definition defaultPane :: Pane where
  "defaultPane =
     \<lparr> pane_id = ''pane-default'', pane_tabs = [], pane_activeTabId = None,
       pane_selectedTabIds = [], pane_widthFraction = 1 \<rparr>"

text \<open>The predicate both \<^verbatim>\<open>filter\<close> calls on tabs use.\<close>

definition keepTab :: "string set \<Rightarrow> string set \<Rightarrow> Tab \<Rightarrow> bool" where
  "keepTab validProjectIds validWorktreeIds tab =
     (if tab_type tab = ''session'' \<and> truthy (tab_projectId tab)
      then hasId validProjectIds (tab_projectId tab) \<or> hasId validWorktreeIds (tab_projectId tab)
      else True)"

definition validatePane :: "string set \<Rightarrow> string set \<Rightarrow> Pane \<Rightarrow> Pane" where
  "validatePane validProjectIds validWorktreeIds pane =
     (let paneTabs = filter (keepTab validProjectIds validWorktreeIds) (pane_tabs pane);
          paneActiveId =
            (if find (\<lambda>t. Some (tab_id t) = pane_activeTabId pane) paneTabs \<noteq> None
             then pane_activeTabId pane
             else firstTabId paneTabs)
      in pane\<lparr> pane_tabs := paneTabs,
               pane_activeTabId := paneActiveId,
               pane_selectedTabIds :=
                 filter (\<lambda>i. list_ex (\<lambda>t. tab_id t = i) paneTabs) (pane_selectedTabIds pane) \<rparr>)"

text \<open>
  The values \<^verbatim>\<open>validateSnapshot\<close> binds before it builds its result:
  \<^verbatim>\<open>validProjectIds\<close>, \<^verbatim>\<open>validWorktreeIds\<close>, \<^verbatim>\<open>validatedPanes\<close> and \<^verbatim>\<open>finalPanes\<close>.
\<close>

definition validProjectIdsOf :: "Project list \<Rightarrow> string set" where
  "validProjectIdsOf freshProjects = set (map project_id freshProjects)"

definition validWorktreeIdsOf :: "RepositoryGroup list \<Rightarrow> string set" where
  "validWorktreeIdsOf freshRepoGroups =
     set (concat (map (\<lambda>rg. map worktree_id (repo_worktrees rg)) freshRepoGroups))"

definition validatedPanesOf :: "string set \<Rightarrow> string set \<Rightarrow> Pane list \<Rightarrow> Pane list" where
  "validatedPanesOf validProjectIds validWorktreeIds layoutPanes =
     filter (\<lambda>pane. length (pane_tabs pane) > 0)
       (map (validatePane validProjectIds validWorktreeIds) layoutPanes)"

definition finalPanesOf :: "Pane list \<Rightarrow> Pane list" where
  "finalPanesOf validatedPanes =
     (if length validatedPanes > 0 then validatedPanes else [defaultPane])"

text \<open>
  \<^verbatim>\<open>finalPanes[0].id\<close> throws a \<^verbatim>\<open>TypeError\<close> on an empty array, so the function returns
  a sum, and that it never throws is a theorem.
\<close>

definition validateSnapshot ::
  "ContextSnapshot \<Rightarrow> Project list \<Rightarrow> RepositoryGroup list \<Rightarrow> thrown + Workspace"
where
  "validateSnapshot snapshot freshProjects freshRepoGroups =
     (let validProjectIds = validProjectIdsOf freshProjects;
          validWorktreeIds = validWorktreeIdsOf freshRepoGroups;
          selectedProjectId' =
            (if truthy (selectedProjectId snapshot)
                \<and> hasId validProjectIds (selectedProjectId snapshot)
             then selectedProjectId snapshot else None);
          selectedRepositoryId' = selectedRepositoryId snapshot;
          selectedWorktreeId' =
            (if truthy (selectedWorktreeId snapshot)
                \<and> hasId validWorktreeIds (selectedWorktreeId snapshot)
             then selectedWorktreeId snapshot else None);
          validTabs = filter (keepTab validProjectIds validWorktreeIds) (openTabs snapshot);
          activeTabId' =
            (if truthy (activeTabId snapshot)
                \<and> find (\<lambda>t. Some (tab_id t) = activeTabId snapshot) validTabs = None
             then firstTabId validTabs
             else activeTabId snapshot);
          validatedPanes =
            validatedPanesOf validProjectIds validWorktreeIds (panes (paneLayout snapshot));
          finalPanes = finalPanesOf validatedPanes
      in case (if find (\<lambda>p. pane_id p = focusedPaneId (paneLayout snapshot)) finalPanes \<noteq> None
               then Inr (focusedPaneId (paneLayout snapshot))
               else (case finalPanes of
                       [] \<Rightarrow> Inl (ErrorObject None ''TypeError'')
                     | p # _ \<Rightarrow> Inr (pane_id p))) of
           Inl err \<Rightarrow> Inl err
         | Inr focused \<Rightarrow>
             Inr \<lparr> projects = freshProjects,
                   selectedProjectId = selectedProjectId',
                   repositoryGroups = freshRepoGroups,
                   selectedRepositoryId = selectedRepositoryId',
                   selectedWorktreeId = selectedWorktreeId',
                   viewMode = viewMode snapshot,
                   sessions = sessions snapshot,
                   selectedSessionId = selectedSessionId snapshot,
                   sessionsCursor = sessionsCursor snapshot,
                   sessionsHasMore = sessionsHasMore snapshot,
                   sessionsTotalCount = sessionsTotalCount snapshot,
                   pinnedSessionIds = pinnedSessionIds snapshot,
                   notifications = notifications snapshot,
                   unreadCount = unreadCount snapshot,
                   openTabs = validTabs,
                   activeTabId = activeTabId',
                   selectedTabIds =
                     filter (\<lambda>i. list_ex (\<lambda>t. tab_id t = i) validTabs) (selectedTabIds snapshot),
                   activeProjectId =
                     (if truthy (activeProjectId snapshot)
                         \<and> (hasId validProjectIds (activeProjectId snapshot)
                              \<or> hasId validWorktreeIds (activeProjectId snapshot))
                      then activeProjectId snapshot
                      else selectedProjectId'),
                   paneLayout = \<lparr> panes = finalPanes, focusedPaneId = focused \<rparr>,
                   sidebarCollapsed = sidebarCollapsed snapshot \<rparr>)"

subsection \<open>captureSnapshot and the partial states\<close>

definition captureSnapshot :: "AppState \<Rightarrow> string \<Rightarrow> int \<Rightarrow> ContextSnapshot" where
  "captureSnapshot state contextId now =
     \<lparr> projects = projects state,
       selectedProjectId = selectedProjectId state,
       repositoryGroups = repositoryGroups state,
       selectedRepositoryId = selectedRepositoryId state,
       selectedWorktreeId = selectedWorktreeId state,
       viewMode = viewMode state,
       sessions = sessions state,
       selectedSessionId = selectedSessionId state,
       sessionsCursor = sessionsCursor state,
       sessionsHasMore = sessionsHasMore state,
       sessionsTotalCount = sessionsTotalCount state,
       pinnedSessionIds = pinnedSessionIds state,
       notifications = notifications state,
       unreadCount = unreadCount state,
       openTabs = openTabs state,
       activeTabId = activeTabId state,
       selectedTabIds = selectedTabIds state,
       activeProjectId = activeProjectId state,
       paneLayout = paneLayout state,
       sidebarCollapsed = sidebarCollapsed state,
       metadata = \<lparr> meta_contextId = contextId, meta_capturedAt = now, meta_version = 1 \<rparr> \<rparr>"

text \<open>\<^verbatim>\<open>set(partial)\<close> of the store, for a partial state with the fields of a workspace.\<close>

definition setWorkspace :: "Workspace \<Rightarrow> AppState \<Rightarrow> AppState" where
  "setWorkspace partial state =
     state\<lparr> projects := projects partial,
            selectedProjectId := selectedProjectId partial,
            repositoryGroups := repositoryGroups partial,
            selectedRepositoryId := selectedRepositoryId partial,
            selectedWorktreeId := selectedWorktreeId partial,
            viewMode := viewMode partial,
            sessions := sessions partial,
            selectedSessionId := selectedSessionId partial,
            sessionsCursor := sessionsCursor partial,
            sessionsHasMore := sessionsHasMore partial,
            sessionsTotalCount := sessionsTotalCount partial,
            pinnedSessionIds := pinnedSessionIds partial,
            notifications := notifications partial,
            unreadCount := unreadCount partial,
            openTabs := openTabs partial,
            activeTabId := activeTabId partial,
            selectedTabIds := selectedTabIds partial,
            activeProjectId := activeProjectId partial,
            paneLayout := paneLayout partial,
            sidebarCollapsed := sidebarCollapsed partial \<rparr>"

text \<open>
  \<^verbatim>\<open>getFullResetState\<close> lives in \<^verbatim>\<open>stateResetHelpers\<close>; the partial state it returns is
  the parameter \<open>fullReset\<close>, given as the update it makes when set. The fields listed after
  the spread override it.
\<close>

definition getEmptyContextState :: "(AppState \<Rightarrow> AppState) \<Rightarrow> AppState \<Rightarrow> AppState" where
  "getEmptyContextState fullReset state =
     (fullReset state)
       \<lparr> projects := [],
         repositoryGroups := [],
         sessions := [],
         notifications := [],
         unreadCount := 0,
         openTabs := [],
         activeTabId := None,
         selectedTabIds := [],
         activeProjectId := None,
         paneLayout := \<lparr> panes = [defaultPane], focusedPaneId = ''pane-default'' \<rparr> \<rparr>"

subsection \<open>switchContext\<close>

text \<open>
  What lies outside the renderer during one call: the main process behind
  \<^verbatim>\<open>window.electronAPI\<close> (each call resolves or rejects), the faults of the store, and the
  values \<^verbatim>\<open>Date.now()\<close> returns when the snapshot is captured, saved and loaded.
\<close>

record Env =
  env_faults :: IdbFaults
  env_contextSwitch :: "string \<Rightarrow> thrown option"
  env_getProjects :: "thrown + Project list"
  env_getRepositoryGroups :: "thrown + RepositoryGroup list"
  env_nowCapture :: int
  env_nowSave :: int
  env_nowLoad :: int

datatype outcome = AlreadyActive | Switched | Failed thrown

text \<open>The \<^verbatim>\<open>catch\<close> block.\<close>

definition failSwitch :: "thrown \<Rightarrow> AppState \<Rightarrow> World \<Rightarrow> outcome \<times> AppState \<times> World" where
  "failSwitch error state w =
     (Failed error,
      state\<lparr>isContextSwitching := False, targetContextId := None\<rparr>,
      emit (ConsoleError ''[contextSlice] Failed to switch context:'') w)"

text \<open>
  \<open>state\<close> is \<^verbatim>\<open>get()\<close> at the start of the call; every \<^verbatim>\<open>set\<close> merges into the state
  the store has then. \<^verbatim>\<open>Promise.all\<close> sends both fetches before it waits for either.
\<close>

definition switchContext ::
  "Env \<Rightarrow> (AppState \<Rightarrow> AppState) \<Rightarrow> string \<Rightarrow> AppState \<times> World \<Rightarrow> outcome \<times> AppState \<times> World"
where
  "switchContext env fullReset targetId sw =
     (case sw of (state, w) \<Rightarrow>
      if targetId = activeContextId state then (AlreadyActive, state, w)
      else
        (let s1 = state\<lparr>isContextSwitching := True, targetContextId := Some targetId\<rparr>;
             currentSnapshot = captureSnapshot state (activeContextId state) (env_nowCapture env);
             w1 = saveSnapshot (env_faults env) (env_nowSave env) (activeContextId state)
                    currentSnapshot w;
             w2 = emit (ContextSwitch targetId) w1
         in case env_contextSwitch env targetId of
              Some error \<Rightarrow> failSwitch error s1 w2
            | None \<Rightarrow>
                (let w3 = emit GetRepositoryGroups (emit GetProjects w2) in
                 case env_getProjects env of
                   Inl error \<Rightarrow> failSwitch error s1 w3
                 | Inr freshProjects \<Rightarrow>
                     (case env_getRepositoryGroups env of
                        Inl error \<Rightarrow> failSwitch error s1 w3
                      | Inr freshRepoGroups \<Rightarrow>
                          (case loadSnapshot (env_faults env) (env_nowLoad env) targetId w3 of
                             (targetSnapshot, w4) \<Rightarrow>
                               (case (case targetSnapshot of
                                        Some snapshot \<Rightarrow>
                                          map_sum id (\<lambda>validatedState. setWorkspace validatedState s1)
                                            (validateSnapshot snapshot freshProjects freshRepoGroups)
                                      | None \<Rightarrow>
                                          Inr ((getEmptyContextState fullReset s1)
                                                 \<lparr> projects := freshProjects,
                                                   repositoryGroups := freshRepoGroups \<rparr>)) of
                                  Inl error \<Rightarrow> failSwitch error s1 w4
                                | Inr s2 \<Rightarrow>
                                    (Switched,
                                     s2\<lparr> isContextSwitching := False,
                                         targetContextId := None,
                                         activeContextId := targetId \<rparr>,
                                     emit FetchNotifications w4)))))))"

subsection \<open>The callers: ContextSwitcher and WorkspaceIndicator\<close>

text \<open>
  Both components render the list of contexts, one \<^verbatim>\<open>ContextItem\<close> for each entry of
  \<^verbatim>\<open>availableContexts\<close>, under \<^verbatim>\<open>{isOpen && !isContextSwitching && (...)}\<close>. The item's
  \<^verbatim>\<open>onSelect\<close> is \<^verbatim>\<open>void switchContext(ctx.id); setIsOpen(false)\<close>, and it is the only place
  either component calls \<^verbatim>\<open>switchContext\<close>. Without the item there is nothing to click.
  WorkspaceIndicator also renders nothing at all when \<^verbatim>\<open>availableContexts.length <= 1\<close>;
  \<open>contextItemRendered\<close> is the condition the two components share.
\<close>

definition contextItemRendered :: "bool \<Rightarrow> AppState \<Rightarrow> string \<Rightarrow> bool" where
  "contextItemRendered isOpen state ctxId =
     (isOpen \<and> \<not> isContextSwitching state
      \<and> list_ex (\<lambda>ctx. context_id ctx = ctxId) (availableContexts state))"

definition clickContextItem ::
  "Env \<Rightarrow> (AppState \<Rightarrow> AppState) \<Rightarrow> string \<Rightarrow> bool \<times> AppState \<times> World
     \<Rightarrow> outcome option \<times> bool \<times> AppState \<times> World"
where
  "clickContextItem env fullReset ctxId ui =
     (case ui of (isOpen, state, w) \<Rightarrow>
      if contextItemRendered isOpen state ctxId
      then (case switchContext env fullReset ctxId (state, w) of
              (out, state', w') \<Rightarrow> (Some out, False, state', w'))
      else (None, isOpen, state, w))"

section \<open>Example inputs\<close>

definition failure :: "int \<Rightarrow> thrown" where
  "failure code = ErrorObject (Some (CodeNumber code)) ''Failure''"

definition channelFailing :: "int \<Rightarrow> SFTPWrapper" where
  "channelFailing code =
     \<lparr> sftp_readFile = (\<lambda>filePath encoding k. Inl (failure code)),
       sftp_stat = (\<lambda>filePath k. Inl (failure code)),
       sftp_readdir = (\<lambda>dirPath k. Inl (failure code)),
       sftp_createReadStream = (\<lambda>filePath start encoding. Inl (failure code)) \<rparr>"

definition regularFile :: Stats where
  "regularFile = \<lparr> stats_mode = 0x81A4, stats_size = 120, stats_mtime = Some 1700000000 \<rparr>"

definition channelRecovering :: SFTPWrapper where
  "channelRecovering =
     \<lparr> sftp_readFile = (\<lambda>filePath encoding k. if k < 3 then Inl (failure 4) else Inr ''data''),
       sftp_stat = (\<lambda>filePath k. if k < 3 then Inl (failure 4) else Inr regularFile),
       sftp_readdir = (\<lambda>dirPath k. if k < 3 then Inl (failure 4) else Inr []),
       sftp_createReadStream = (\<lambda>filePath start encoding. Inr 0) \<rparr>"

definition freshRuntime :: Runtime where
  "freshRuntime = \<lparr> rt_streams = [], rt_pipes = [], rt_nextTick = [], rt_log = [] \<rparr>"

text \<open>Snapshots, fresh data and stores.\<close>

definition sessionTab :: "string \<Rightarrow> string \<Rightarrow> Tab" where
  "sessionTab i p = \<lparr> tab_id = i, tab_type = ''session'', tab_projectId = Some p \<rparr>"

definition dashboardTab :: "string \<Rightarrow> Tab" where
  "dashboardTab i = \<lparr> tab_id = i, tab_type = ''dashboard'', tab_projectId = None \<rparr>"

definition blankSnapshot :: ContextSnapshot where
  "blankSnapshot =
     \<lparr> projects = [], selectedProjectId = None, repositoryGroups = [],
       selectedRepositoryId = None, selectedWorktreeId = None, viewMode = flat,
       sessions = [], selectedSessionId = None, sessionsCursor = None,
       sessionsHasMore = False, sessionsTotalCount = 0, pinnedSessionIds = [],
       notifications = [], unreadCount = 0, openTabs = [], activeTabId = None,
       selectedTabIds = [], activeProjectId = None,
       paneLayout = \<lparr> panes = [defaultPane], focusedPaneId = ''pane-default'' \<rparr>,
       sidebarCollapsed = False,
       metadata = \<lparr> meta_contextId = ''ssh-db1'', meta_capturedAt = 1000, meta_version = 1 \<rparr> \<rparr>"

definition paneOf :: "string \<Rightarrow> Tab list \<Rightarrow> string \<Rightarrow> Pane" where
  "paneOf i tabs active =
     \<lparr> pane_id = i, pane_tabs = tabs, pane_activeTabId = Some active,
       pane_selectedTabIds = [active], pane_widthFraction = 1 / 2 \<rparr>"

text \<open>
  Project \<open>p1\<close> and worktree \<open>w1\<close> are still there, project \<open>p9\<close> is gone. The active tab,
  the active project, the selected project and the whole focused pane refer to \<open>p9\<close>.
\<close>

definition freshProjects1 :: "Project list" where
  "freshProjects1 = [\<lparr> project_id = ''p1'' \<rparr>]"

definition freshRepoGroups1 :: "RepositoryGroup list" where
  "freshRepoGroups1 = [\<lparr> repo_id = ''r1'', repo_worktrees = [\<lparr> worktree_id = ''w1'' \<rparr>] \<rparr>]"

definition mixedSnapshot :: ContextSnapshot where
  "mixedSnapshot =
     blankSnapshot
       \<lparr> selectedProjectId := Some ''p9'',
         selectedRepositoryId := Some ''r7'',
         selectedWorktreeId := Some ''w1'',
         openTabs := [sessionTab ''t1'' ''p1'', sessionTab ''t2'' ''p9'', dashboardTab ''t3'',
                      sessionTab ''t4'' ''w1''],
         activeTabId := Some ''t2'',
         selectedTabIds := [''t1'', ''t2''],
         activeProjectId := Some ''p9'',
         paneLayout :=
           \<lparr> panes = [paneOf ''pane-a'' [sessionTab ''t1'' ''p1'', dashboardTab ''t3''] ''t3'',
                       paneOf ''pane-b'' [sessionTab ''t2'' ''p9''] ''t2'',
                       paneOf ''pane-c'' [sessionTab ''t2'' ''p9'', sessionTab ''t4'' ''w1''] ''t2''],
             focusedPaneId = ''pane-b'' \<rparr> \<rparr>"

text \<open>Every pane of this one holds only tabs of the project that is gone.\<close>

definition staleSnapshot :: ContextSnapshot where
  "staleSnapshot =
     blankSnapshot
       \<lparr> openTabs := [sessionTab ''t2'' ''p9''],
         activeTabId := Some ''t2'',
         paneLayout :=
           \<lparr> panes = [paneOf ''pane-b'' [sessionTab ''t2'' ''p9''] ''t2''],
             focusedPaneId = ''pane-b'' \<rparr> \<rparr>"

definition noFaults :: IdbFaults where
  "noFaults = \<lparr> set_rejects = False, get_rejects = False, del_rejects = False \<rparr>"

definition emptyWorld :: World where
  "emptyWorld = \<lparr> idb = Map.empty, effects = [] \<rparr>"

definition worldStoring :: "string \<Rightarrow> StoredSnapshot \<Rightarrow> World" where
  "worldStoring contextId stored =
     \<lparr> idb = [STORAGE_KEY_PREFIX @ contextId \<mapsto> stored], effects = [] \<rparr>"

definition storedAt :: "int \<Rightarrow> nat \<Rightarrow> StoredSnapshot" where
  "storedAt t v = \<lparr> stored_snapshot = blankSnapshot, stored_timestamp = t, stored_version = v \<rparr>"

text \<open>Application states and environments for a switch from \<open>local\<close> to \<open>ssh-db1\<close>.\<close>

definition localState :: AppState where
  "localState =
     \<lparr> projects = [\<lparr> project_id = ''home'' \<rparr>], selectedProjectId = Some ''home'',
       repositoryGroups = [], selectedRepositoryId = None, selectedWorktreeId = None,
       viewMode = flat, sessions = [], selectedSessionId = None, sessionsCursor = None,
       sessionsHasMore = False, sessionsTotalCount = 0, pinnedSessionIds = [],
       notifications = [], unreadCount = 0,
       openTabs = [sessionTab ''t0'' ''home''], activeTabId = Some ''t0'',
       selectedTabIds = [], activeProjectId = Some ''home'',
       paneLayout = \<lparr> panes = [paneOf ''pane-default'' [sessionTab ''t0'' ''home''] ''t0''],
                      focusedPaneId = ''pane-default'' \<rparr>,
       sidebarCollapsed = False,
       activeContextId = ''local'', isContextSwitching = False, targetContextId = None,
       contextSnapshotsReady = True,
       availableContexts = [\<lparr> context_id = ''local'', context_type = ''local'' \<rparr>,
                            \<lparr> context_id = ''ssh-db1'', context_type = ''ssh'' \<rparr>,
                            \<lparr> context_id = ''ssh-db2'', context_type = ''ssh'' \<rparr>] \<rparr>"

text \<open>The same state while a switch to \<open>ssh-db2\<close> is in flight.\<close>

definition busyState :: AppState where
  "busyState = localState\<lparr>isContextSwitching := True, targetContextId := Some ''ssh-db2''\<rparr>"

definition okEnv :: Env where
  "okEnv =
     \<lparr> env_faults = noFaults,
       env_contextSwitch = (\<lambda>targetId. None),
       env_getProjects = Inr freshProjects1,
       env_getRepositoryGroups = Inr freshRepoGroups1,
       env_nowCapture = 1000, env_nowSave = 1001, env_nowLoad = 2000 \<rparr>"

definition ipcError :: thrown where
  "ipcError = ErrorObject None ''Error invoking remote method''"

definition switchRejectingEnv :: Env where
  "switchRejectingEnv = okEnv\<lparr>env_contextSwitch := (\<lambda>targetId. Some ipcError)\<rparr>"

definition fetchRejectingEnv :: Env where
  "fetchRejectingEnv = okEnv\<lparr>env_getRepositoryGroups := Inl ipcError\<rparr>"

text \<open>A tab that is not a session tab and carries the id of the project that is gone.\<close>

definition foreignTab :: Tab where
  "foreignTab = \<lparr> tab_id = ''t5'', tab_type = ''dashboard'', tab_projectId = Some ''p9'' \<rparr>"

definition foreignSnapshot :: ContextSnapshot where
  "foreignSnapshot =
     blankSnapshot
       \<lparr> openTabs := [foreignTab],
         paneLayout := \<lparr> panes = [paneOf ''pane-a'' [foreignTab] ''t5''],
                         focusedPaneId = ''pane-a'' \<rparr> \<rparr>"

text \<open>
  A channel that answers the first \<open>busy\<close> requests of an operation with status 4 and every
  later one with the status \<open>code\<close>.
\<close>

definition channelBusyThen :: "nat \<Rightarrow> int \<Rightarrow> SFTPWrapper" where
  "channelBusyThen busy code =
     \<lparr> sftp_readFile = (\<lambda>filePath encoding k. Inl (failure (if k \<le> busy then 4 else code))),
       sftp_stat = (\<lambda>filePath k. Inl (failure (if k \<le> busy then 4 else code))),
       sftp_readdir = (\<lambda>dirPath k. Inl (failure (if k \<le> busy then 4 else code))),
       sftp_createReadStream = (\<lambda>filePath start encoding. Inl (failure code)) \<rparr>"

section \<open>Properties of the remote provider\<close>

subsection \<open>The retry loop, unrolled\<close>

text \<open>
  With \<open>MAX_RETRIES = 3\<close> the loop started at attempt 1 is a case distinction on at most
  three replies.
\<close>

lemma retryLoop_from_1:
  "retryLoop call msg 1 None =
     (case call 1 of
        Inr v \<Rightarrow> (Inr v, [Request 1])
      | Inl e1 \<Rightarrow>
          if classifySftpError e1 \<noteq> transient then (Inl e1, [Request 1])
          else (case call 2 of
                  Inr v \<Rightarrow> (Inr v, [Request 1, Sleep 75, Request 2])
                | Inl e2 \<Rightarrow>
                    if classifySftpError e2 \<noteq> transient
                    then (Inl e2, [Request 1, Sleep 75, Request 2])
                    else (case call 3 of
                            Inr v \<Rightarrow> (Inr v, [Request 1, Sleep 75, Request 2, Sleep 150, Request 3])
                          | Inl e3 \<Rightarrow> (Inl e3, [Request 1, Sleep 75, Request 2, Sleep 150, Request 3]))))"
proof -
  have l3: "retryLoop call msg 3 le =
      (case call 3 of Inr v \<Rightarrow> (Inr v, [Request 3]) | Inl e3 \<Rightarrow> (Inl e3, [Request 3]))" for le
    by (subst retryLoop.simps) (simp add: MAX_RETRIES_def split: sum.splits)
  have l2: "retryLoop call msg 2 le =
      (case call 2 of
         Inr v \<Rightarrow> (Inr v, [Request 2])
       | Inl e2 \<Rightarrow>
           if classifySftpError e2 \<noteq> transient then (Inl e2, [Request 2])
           else (case retryLoop call msg 3 (Some e2) of
                   (r, evs) \<Rightarrow> (r, Request 2 # Sleep 150 # evs)))" for le
    by (subst retryLoop.simps)
      (simp add: MAX_RETRIES_def RETRY_BASE_DELAY_MS_def split: sum.splits)
  have l1: "retryLoop call msg 1 None =
      (case call 1 of
         Inr v \<Rightarrow> (Inr v, [Request 1])
       | Inl e1 \<Rightarrow>
           if classifySftpError e1 \<noteq> transient then (Inl e1, [Request 1])
           else (case retryLoop call msg 2 (Some e1) of
                   (r, evs) \<Rightarrow> (r, Request 1 # Sleep 75 # evs)))"
    by (subst retryLoop.simps)
      (simp add: MAX_RETRIES_def RETRY_BASE_DELAY_MS_def numeral_2_eq_2 split: sum.splits)
  show ?thesis
    unfolding l1 l2 l3 by (simp split: sum.splits)
qed

text \<open>
  A request is sent only after every earlier reply of the operation was a transient error
  (induction along the loop).
\<close>

lemma retryLoop_request_after:
  "Request j \<in> set (snd (retryLoop call msg a le)) \<Longrightarrow> a \<le> k \<Longrightarrow> k < j \<Longrightarrow>
   \<exists>e. call k = Inl e \<and> classifySftpError e = transient"
proof (induction call msg a le rule: retryLoop.induct)
  case (1 call failMsg attempt lastError)
  show ?case
  proof (cases "attempt \<le> MAX_RETRIES")
    case False
    with "1.prems" show ?thesis by (simp add: retryLoop.simps [of call failMsg attempt])
  next
    case le: True
    show ?thesis
    proof (cases "call attempt")
      case (Inr v)
      with le "1.prems" show ?thesis by (simp add: retryLoop.simps [of call failMsg attempt])
    next
      case (Inl error)
      show ?thesis
      proof (cases "classifySftpError error = transient \<and> attempt < MAX_RETRIES")
        case False
        with le Inl "1.prems" show ?thesis
          by (auto simp add: retryLoop.simps [of call failMsg attempt])
      next
        case True
        with le Inl "1.prems" have mem: "Request j \<in> set (snd (retryLoop call failMsg (attempt + 1) (Some error)))"
          by (auto simp add: retryLoop.simps [of call failMsg attempt] split: prod.splits)
        show ?thesis
        proof (cases "k = attempt")
          case True
          with Inl \<open>classifySftpError error = transient \<and> attempt < MAX_RETRIES\<close> show ?thesis by simp
        next
          case False
          with "1.prems" have "attempt + 1 \<le> k" by simp
          from "1.IH" [OF le Inl True mem this "1.prems"(3)] show ?thesis .
        qed
      qed
    qed
  qed
qed

lemma retryLoop_all_transient:
  assumes "transientReply (call 1)" "transientReply (call 2)" "transientReply (call 3)"
  shows "retryLoop call msg 1 None = (call 3, [Request 1, Sleep 75, Request 2, Sleep 150, Request 3])"
  using assms unfolding retryLoop_from_1 transientReply_def
  by (auto split: sum.splits)

lemma transientReply_map_sum: "transientReply (map_sum id f r) = transientReply r"
  by (cases r) (simp_all add: transientReply_def)

lemma retryLoop_three_attempts:
  assumes "\<forall>k. 1 \<le> k \<and> k \<le> MAX_RETRIES \<longrightarrow> transientReply (call k)"
  shows "retryLoop call msg 1 None =
           (call 3,
            [Request 1, Sleep (1 * RETRY_BASE_DELAY_MS), Request 2,
             Sleep (2 * RETRY_BASE_DELAY_MS), Request 3])"
proof -
  from assms have "transientReply (call 1)" "transientReply (call 2)" "transientReply (call 3)"
    by (simp_all add: MAX_RETRIES_def)
  from retryLoop_all_transient [OF this] show ?thesis
    by (simp add: RETRY_BASE_DELAY_MS_def)
qed

lemma retryLoop_surfaces_first:
  assumes "call 1 = Inl e" "classifySftpError e = not_found \<or> classifySftpError e = permanent"
  shows "retryLoop call msg 1 None = (Inl e, [Request 1])"
  using assms unfolding retryLoop_from_1 by auto

lemma retryLoop_surfaces_at:
  assumes n: "1 \<le> n" "n \<le> MAX_RETRIES"
    and before: "\<forall>j. 1 \<le> j \<and> j < n \<longrightarrow> transientReply (call j)"
    and at: "call n = Inl e"
    and kind: "classifySftpError e = not_found \<or> classifySftpError e = permanent"
  shows "retryLoop call msg 1 None =
           (Inl e,
            take (2 * n - 1)
              [Request 1, Sleep (1 * RETRY_BASE_DELAY_MS), Request 2,
               Sleep (2 * RETRY_BASE_DELAY_MS), Request 3])"
proof -
  from n have "n = 1 \<or> n = 2 \<or> n = 3" by (auto simp add: MAX_RETRIES_def)
  then show ?thesis
  proof (elim disjE)
    assume "n = 1"
    with at kind show ?thesis unfolding retryLoop_from_1 by auto
  next
    assume n2: "n = 2"
    with before have "transientReply (call 1)" by simp
    with n2 at kind show ?thesis
      unfolding retryLoop_from_1 transientReply_def
      by (auto simp add: RETRY_BASE_DELAY_MS_def split: sum.splits)
  next
    assume n3: "n = 3"
    with before have "transientReply (call 1)" "transientReply (call 2)" by simp_all
    with n3 at kind show ?thesis
      unfolding retryLoop_from_1 transientReply_def
      by (auto simp add: RETRY_BASE_DELAY_MS_def split: sum.splits)
  qed
qed

lemma retryLoop_retries_only_transient:
  assumes "Request j \<in> set (snd (retryLoop call msg 1 None))" "1 \<le> k" "k < j"
  shows "transientReply (call k)"
  using retryLoop_request_after [OF assms] by (auto simp add: transientReply_def)

lemma retryLoop_transient_failure_exhausted:
  assumes "retryLoop call msg 1 None = (Inl e, evs)" "classifySftpError e = transient"
  shows "evs = [Request 1, Sleep 75, Request 2, Sleep 150, Request 3]"
  using assms unfolding retryLoop_from_1
  by (auto split: sum.splits if_splits)

subsection \<open>The example channels\<close>

lemma classify_failure_4: "classifySftpError (failure 4) = transient"
  by (simp add: failure_def classifySftpError_def isNotFoundError_def isRetryableError_def
      String_of_number_def decimal.simps digit_char_def)

lemma classify_failure_2: "classifySftpError (failure 2) = not_found"
  by (simp add: failure_def classifySftpError_def isNotFoundError_def isRetryableError_def
      String_of_number_def decimal.simps digit_char_def)

lemma classify_failure_3: "classifySftpError (failure 3) = permanent"
  by (simp add: failure_def classifySftpError_def isNotFoundError_def isRetryableError_def
      String_of_number_def decimal.simps digit_char_def)

lemma busy_replies:
  "transientReply (sftp_readFile (channelFailing 4) p enc k)"
  "transientReply (sftp_stat (channelFailing 4) p k)"
  "transientReply (sftp_readdir (channelFailing 4) p k)"
  by (simp_all add: channelFailing_def transientReply_def classify_failure_4)

lemma readFile_recovering:
  "readFile channelRecovering ''/data/x'' ''utf8''
     = (Inr ''data'', [Request 1, Sleep 75, Request 2, Sleep 150, Request 3])"
  unfolding readFile_def retryLoop_from_1
  by (simp add: channelRecovering_def classify_failure_4)

lemma stat_recovering:
  "snd (stat channelRecovering ''/data/x'') = [Request 1, Sleep 75, Request 2, Sleep 150, Request 3]"
  unfolding stat_def retryLoop_from_1
  by (simp add: channelRecovering_def classify_failure_4)

lemma readdir_recovering:
  "snd (readdir channelRecovering ''/data'') = [Request 1, Sleep 75, Request 2, Sleep 150, Request 3]"
  unfolding readdir_def retryLoop_from_1
  by (simp add: channelRecovering_def classify_failure_4)

lemma stat_failing:
  "classifySftpError (failure c) = transient \<Longrightarrow>
     fst (stat (channelFailing c) p) = Inl (failure c)"
  "classifySftpError (failure c) \<noteq> transient \<Longrightarrow>
     stat (channelFailing c) p = (Inl (failure c), [Request 1])"
  unfolding stat_def retryLoop_from_1 by (simp_all add: channelFailing_def)

lemma busyThen_replies:
  "sftp_readFile (channelBusyThen b c) p enc k = Inl (failure (if k \<le> b then 4 else c))"
  "sftp_stat (channelBusyThen b c) p k = Inl (failure (if k \<le> b then 4 else c))"
  "sftp_readdir (channelBusyThen b c) p k = Inl (failure (if k \<le> b then 4 else c))"
  by (simp_all add: channelBusyThen_def)

subsection \<open>Three attempts and linear backoff\<close>

text \<open>
  Claim C3. When the channel answers every attempt of \<^verbatim>\<open>readFile\<close>, \<^verbatim>\<open>stat\<close> or
  \<^verbatim>\<open>readdir\<close> with an error classified transient, the operation sends exactly three
  requests, sleeps \<open>1 * 75\<close> ms between the first and the second and \<open>2 * 75\<close> ms between
  the second and the third, and then fails with the error of the third attempt.
\<close>

theorem transient_three_attempts:
  "((\<forall>k. 1 \<le> k \<and> k \<le> MAX_RETRIES \<longrightarrow> transientReply (sftp_readFile sftp filePath encoding k)) \<longrightarrow>
      readFile sftp filePath encoding =
        (sftp_readFile sftp filePath encoding 3,
         [Request 1, Sleep (1 * RETRY_BASE_DELAY_MS), Request 2,
          Sleep (2 * RETRY_BASE_DELAY_MS), Request 3]))
   \<and> ((\<forall>k. 1 \<le> k \<and> k \<le> MAX_RETRIES \<longrightarrow> transientReply (sftp_stat sftp filePath k)) \<longrightarrow>
      stat sftp filePath =
        (map_sum id toStatResult (sftp_stat sftp filePath 3),
         [Request 1, Sleep (1 * RETRY_BASE_DELAY_MS), Request 2,
          Sleep (2 * RETRY_BASE_DELAY_MS), Request 3]))
   \<and> ((\<forall>k. 1 \<le> k \<and> k \<le> MAX_RETRIES \<longrightarrow> transientReply (sftp_readdir sftp dirPath k)) \<longrightarrow>
      readdir sftp dirPath =
        (map_sum id toDirents (sftp_readdir sftp dirPath 3),
         [Request 1, Sleep (1 * RETRY_BASE_DELAY_MS), Request 2,
          Sleep (2 * RETRY_BASE_DELAY_MS), Request 3]))"
proof (intro conjI impI)
  assume "\<forall>k. 1 \<le> k \<and> k \<le> MAX_RETRIES \<longrightarrow> transientReply (sftp_readFile sftp filePath encoding k)"
  then show "readFile sftp filePath encoding =
        (sftp_readFile sftp filePath encoding 3,
         [Request 1, Sleep (1 * RETRY_BASE_DELAY_MS), Request 2,
          Sleep (2 * RETRY_BASE_DELAY_MS), Request 3])"
    unfolding readFile_def by (rule retryLoop_three_attempts)
next
  assume "\<forall>k. 1 \<le> k \<and> k \<le> MAX_RETRIES \<longrightarrow> transientReply (sftp_stat sftp filePath k)"
  then have "\<forall>k. 1 \<le> k \<and> k \<le> MAX_RETRIES
      \<longrightarrow> transientReply (map_sum id toStatResult (sftp_stat sftp filePath k))"
    by (simp only: transientReply_map_sum)
  then show "stat sftp filePath =
        (map_sum id toStatResult (sftp_stat sftp filePath 3),
         [Request 1, Sleep (1 * RETRY_BASE_DELAY_MS), Request 2,
          Sleep (2 * RETRY_BASE_DELAY_MS), Request 3])"
    unfolding stat_def by (rule retryLoop_three_attempts)
next
  assume "\<forall>k. 1 \<le> k \<and> k \<le> MAX_RETRIES \<longrightarrow> transientReply (sftp_readdir sftp dirPath k)"
  then have "\<forall>k. 1 \<le> k \<and> k \<le> MAX_RETRIES
      \<longrightarrow> transientReply (map_sum id toDirents (sftp_readdir sftp dirPath k))"
    by (simp only: transientReply_map_sum)
  then show "readdir sftp dirPath =
        (map_sum id toDirents (sftp_readdir sftp dirPath 3),
         [Request 1, Sleep (1 * RETRY_BASE_DELAY_MS), Request 2,
          Sleep (2 * RETRY_BASE_DELAY_MS), Request 3])"
    unfolding readdir_def by (rule retryLoop_three_attempts)
qed

text \<open>On a channel that answers every request with SFTP status 4.\<close>

theorem transient_three_attempts_witness:
  "transientReply (sftp_readFile (channelFailing 4) ''/data/x'' ''utf8'' 1)
   \<and> transientReply (sftp_readFile (channelFailing 4) ''/data/x'' ''utf8'' 2)
   \<and> transientReply (sftp_readFile (channelFailing 4) ''/data/x'' ''utf8'' 3)
   \<and> readFile (channelFailing 4) ''/data/x'' ''utf8''
       = (Inl (failure 4), [Request 1, Sleep 75, Request 2, Sleep 150, Request 3])
   \<and> stat (channelFailing 4) ''/data/x''
       = (Inl (failure 4), [Request 1, Sleep 75, Request 2, Sleep 150, Request 3])
   \<and> readdir (channelFailing 4) ''/data''
       = (Inl (failure 4), [Request 1, Sleep 75, Request 2, Sleep 150, Request 3])"
  using transient_three_attempts [of "channelFailing 4" "''/data/x''" "''utf8''" "''/data''"]
  by (simp add: busy_replies RETRY_BASE_DELAY_MS_def) (simp add: channelFailing_def)

subsection \<open>Errors that are not transient\<close>

text \<open>
  Claim C7. An error classified \<open>not_found\<close> or \<open>permanent\<close> is the result of
  \<^verbatim>\<open>readFile\<close>, \<^verbatim>\<open>stat\<close> or \<^verbatim>\<open>readdir\<close> at the attempt \<open>n\<close> where it first occurs, the
  replies before it being transient: the operation returns that error, and its events are
  the \<open>n\<close> requests with the sleeps between them and nothing after the \<open>n\<close>-th request.
  At the first attempt that is one request, no sleep and no retry. And whenever an operation
  sends a request \<open>j\<close>, the reply to every earlier request \<open>k\<close> was an error classified
  transient: nothing else is retried.
\<close>

theorem only_transient_retried:
  "(1 \<le> n \<and> n \<le> MAX_RETRIES
      \<and> (\<forall>j. 1 \<le> j \<and> j < n \<longrightarrow> transientReply (sftp_readFile sftp filePath encoding j))
      \<and> sftp_readFile sftp filePath encoding n = Inl e
      \<and> (classifySftpError e = not_found \<or> classifySftpError e = permanent)
      \<longrightarrow> readFile sftp filePath encoding =
            (Inl e,
             take (2 * n - 1)
               [Request 1, Sleep (1 * RETRY_BASE_DELAY_MS), Request 2,
                Sleep (2 * RETRY_BASE_DELAY_MS), Request 3]))
   \<and> (1 \<le> n \<and> n \<le> MAX_RETRIES
      \<and> (\<forall>j. 1 \<le> j \<and> j < n \<longrightarrow> transientReply (sftp_stat sftp filePath j))
      \<and> sftp_stat sftp filePath n = Inl e
      \<and> (classifySftpError e = not_found \<or> classifySftpError e = permanent)
      \<longrightarrow> stat sftp filePath =
            (Inl e,
             take (2 * n - 1)
               [Request 1, Sleep (1 * RETRY_BASE_DELAY_MS), Request 2,
                Sleep (2 * RETRY_BASE_DELAY_MS), Request 3]))
   \<and> (1 \<le> n \<and> n \<le> MAX_RETRIES
      \<and> (\<forall>j. 1 \<le> j \<and> j < n \<longrightarrow> transientReply (sftp_readdir sftp dirPath j))
      \<and> sftp_readdir sftp dirPath n = Inl e
      \<and> (classifySftpError e = not_found \<or> classifySftpError e = permanent)
      \<longrightarrow> readdir sftp dirPath =
            (Inl e,
             take (2 * n - 1)
               [Request 1, Sleep (1 * RETRY_BASE_DELAY_MS), Request 2,
                Sleep (2 * RETRY_BASE_DELAY_MS), Request 3]))
   \<and> (sftp_readFile sftp filePath encoding 1 = Inl e
      \<and> (classifySftpError e = not_found \<or> classifySftpError e = permanent)
      \<longrightarrow> readFile sftp filePath encoding = (Inl e, [Request 1]))
   \<and> (sftp_stat sftp filePath 1 = Inl e
      \<and> (classifySftpError e = not_found \<or> classifySftpError e = permanent)
      \<longrightarrow> stat sftp filePath = (Inl e, [Request 1]))
   \<and> (sftp_readdir sftp dirPath 1 = Inl e
      \<and> (classifySftpError e = not_found \<or> classifySftpError e = permanent)
      \<longrightarrow> readdir sftp dirPath = (Inl e, [Request 1]))
   \<and> (Request j \<in> set (snd (readFile sftp filePath encoding)) \<and> 1 \<le> k \<and> k < j
      \<longrightarrow> transientReply (sftp_readFile sftp filePath encoding k))
   \<and> (Request j \<in> set (snd (stat sftp filePath)) \<and> 1 \<le> k \<and> k < j
      \<longrightarrow> transientReply (sftp_stat sftp filePath k))
   \<and> (Request j \<in> set (snd (readdir sftp dirPath)) \<and> 1 \<le> k \<and> k < j
      \<longrightarrow> transientReply (sftp_readdir sftp dirPath k))"
proof (intro conjI impI; (elim conjE)?)
  assume "1 \<le> n" "n \<le> MAX_RETRIES"
    "\<forall>j. 1 \<le> j \<and> j < n \<longrightarrow> transientReply (sftp_readFile sftp filePath encoding j)"
    "sftp_readFile sftp filePath encoding n = Inl e"
    "classifySftpError e = not_found \<or> classifySftpError e = permanent"
  then show "readFile sftp filePath encoding =
            (Inl e,
             take (2 * n - 1)
               [Request 1, Sleep (1 * RETRY_BASE_DELAY_MS), Request 2,
                Sleep (2 * RETRY_BASE_DELAY_MS), Request 3])"
    unfolding readFile_def by (rule retryLoop_surfaces_at)
next
  assume n: "1 \<le> n" "n \<le> MAX_RETRIES"
    and b: "\<forall>j. 1 \<le> j \<and> j < n \<longrightarrow> transientReply (sftp_stat sftp filePath j)"
    and a: "sftp_stat sftp filePath n = Inl e"
    and c: "classifySftpError e = not_found \<or> classifySftpError e = permanent"
  from b have b': "\<forall>j. 1 \<le> j \<and> j < n
      \<longrightarrow> transientReply (map_sum id toStatResult (sftp_stat sftp filePath j))"
    by (simp only: transientReply_map_sum)
  from a have a': "map_sum id toStatResult (sftp_stat sftp filePath n) = Inl e" by simp
  from n b' a' c show "stat sftp filePath =
            (Inl e,
             take (2 * n - 1)
               [Request 1, Sleep (1 * RETRY_BASE_DELAY_MS), Request 2,
                Sleep (2 * RETRY_BASE_DELAY_MS), Request 3])"
    unfolding stat_def by (rule retryLoop_surfaces_at)
next
  assume n: "1 \<le> n" "n \<le> MAX_RETRIES"
    and b: "\<forall>j. 1 \<le> j \<and> j < n \<longrightarrow> transientReply (sftp_readdir sftp dirPath j)"
    and a: "sftp_readdir sftp dirPath n = Inl e"
    and c: "classifySftpError e = not_found \<or> classifySftpError e = permanent"
  from b have b': "\<forall>j. 1 \<le> j \<and> j < n
      \<longrightarrow> transientReply (map_sum id toDirents (sftp_readdir sftp dirPath j))"
    by (simp only: transientReply_map_sum)
  from a have a': "map_sum id toDirents (sftp_readdir sftp dirPath n) = Inl e" by simp
  from n b' a' c show "readdir sftp dirPath =
            (Inl e,
             take (2 * n - 1)
               [Request 1, Sleep (1 * RETRY_BASE_DELAY_MS), Request 2,
                Sleep (2 * RETRY_BASE_DELAY_MS), Request 3])"
    unfolding readdir_def by (rule retryLoop_surfaces_at)
next
  assume "sftp_readFile sftp filePath encoding 1 = Inl e"
    "classifySftpError e = not_found \<or> classifySftpError e = permanent"
  then show "readFile sftp filePath encoding = (Inl e, [Request 1])"
    unfolding readFile_def by (rule retryLoop_surfaces_first)
next
  assume "sftp_stat sftp filePath 1 = Inl e"
    and c: "classifySftpError e = not_found \<or> classifySftpError e = permanent"
  then have "map_sum id toStatResult (sftp_stat sftp filePath 1) = Inl e" by simp
  from this c show "stat sftp filePath = (Inl e, [Request 1])"
    unfolding stat_def by (rule retryLoop_surfaces_first)
next
  assume "sftp_readdir sftp dirPath 1 = Inl e"
    and c: "classifySftpError e = not_found \<or> classifySftpError e = permanent"
  then have "map_sum id toDirents (sftp_readdir sftp dirPath 1) = Inl e" by simp
  from this c show "readdir sftp dirPath = (Inl e, [Request 1])"
    unfolding readdir_def by (rule retryLoop_surfaces_first)
next
  assume "Request j \<in> set (snd (readFile sftp filePath encoding))" "1 \<le> k" "k < j"
  then show "transientReply (sftp_readFile sftp filePath encoding k)"
    unfolding readFile_def by (rule retryLoop_retries_only_transient)
next
  assume "Request j \<in> set (snd (stat sftp filePath))" "1 \<le> k" "k < j"
  then have "transientReply (map_sum id toStatResult (sftp_stat sftp filePath k))"
    unfolding stat_def by (rule retryLoop_retries_only_transient)
  then show "transientReply (sftp_stat sftp filePath k)"
    by (simp only: transientReply_map_sum)
next
  assume "Request j \<in> set (snd (readdir sftp dirPath))" "1 \<le> k" "k < j"
  then have "transientReply (map_sum id toDirents (sftp_readdir sftp dirPath k))"
    unfolding readdir_def by (rule retryLoop_retries_only_transient)
  then show "transientReply (sftp_readdir sftp dirPath k)"
    by (simp only: transientReply_map_sum)
qed

text \<open>
  A missing file (status 2) and a refused one (status 3) at the first attempt; the same
  after one and after two transient replies; and a channel that recovers at the third
  attempt.
\<close>

theorem only_transient_retried_witness:
  "readFile (channelFailing 2) ''/missing'' ''utf8'' = (Inl (failure 2), [Request 1])
   \<and> stat (channelFailing 2) ''/missing'' = (Inl (failure 2), [Request 1])
   \<and> readdir (channelFailing 2) ''/gone'' = (Inl (failure 2), [Request 1])
   \<and> readFile (channelFailing 3) ''/secret'' ''utf8'' = (Inl (failure 3), [Request 1])
   \<and> transientReply (sftp_readFile (channelBusyThen 1 2) ''/missing'' ''utf8'' 1)
   \<and> sftp_readFile (channelBusyThen 1 2) ''/missing'' ''utf8'' 2 = Inl (failure 2)
   \<and> readFile (channelBusyThen 1 2) ''/missing'' ''utf8''
       = (Inl (failure 2), [Request 1, Sleep 75, Request 2])
   \<and> stat (channelBusyThen 1 2) ''/missing''
       = (Inl (failure 2), [Request 1, Sleep 75, Request 2])
   \<and> readdir (channelBusyThen 1 2) ''/gone''
       = (Inl (failure 2), [Request 1, Sleep 75, Request 2])
   \<and> stat (channelBusyThen 2 3) ''/secret''
       = (Inl (failure 3), [Request 1, Sleep 75, Request 2, Sleep 150, Request 3])
   \<and> Request 3 \<in> set (snd (readFile channelRecovering ''/data/x'' ''utf8''))
   \<and> transientReply (sftp_readFile channelRecovering ''/data/x'' ''utf8'' 2)
   \<and> transientReply (sftp_stat channelRecovering ''/data/x'' 2)
   \<and> transientReply (sftp_readdir channelRecovering ''/data'' 2)"
proof -
  note t = only_transient_retried
  have a: "readFile (channelFailing 2) ''/missing'' ''utf8'' = (Inl (failure 2), [Request 1])"
    "stat (channelFailing 2) ''/missing'' = (Inl (failure 2), [Request 1])"
    "readdir (channelFailing 2) ''/gone'' = (Inl (failure 2), [Request 1])"
    using t [where sftp = "channelFailing 2" and filePath = "''/missing''" and encoding = "''utf8''"
        and e = "failure 2" and dirPath = "''/gone''" and n = 1]
    by (simp_all add: channelFailing_def classify_failure_2 MAX_RETRIES_def)
  have b: "readFile (channelFailing 3) ''/secret'' ''utf8'' = (Inl (failure 3), [Request 1])"
    using t [where sftp = "channelFailing 3" and filePath = "''/secret''" and encoding = "''utf8''"
        and e = "failure 3" and n = 1]
    by (simp add: channelFailing_def classify_failure_3 MAX_RETRIES_def)
  have c: "transientReply (sftp_readFile (channelBusyThen 1 2) ''/missing'' ''utf8'' 1)"
    "sftp_readFile (channelBusyThen 1 2) ''/missing'' ''utf8'' 2 = Inl (failure 2)"
    by (simp_all add: busyThen_replies transientReply_def classify_failure_4)
  have d: "readFile (channelBusyThen 1 2) ''/missing'' ''utf8''
       = (Inl (failure 2), [Request 1, Sleep 75, Request 2])"
    "stat (channelBusyThen 1 2) ''/missing''
       = (Inl (failure 2), [Request 1, Sleep 75, Request 2])"
    "readdir (channelBusyThen 1 2) ''/gone''
       = (Inl (failure 2), [Request 1, Sleep 75, Request 2])"
    using t [where sftp = "channelBusyThen 1 2" and filePath = "''/missing''"
        and encoding = "''utf8''" and e = "failure 2" and dirPath = "''/gone''" and n = 2]
    by (simp_all add: busyThen_replies transientReply_def classify_failure_4 classify_failure_2
        MAX_RETRIES_def RETRY_BASE_DELAY_MS_def)
  have e: "stat (channelBusyThen 2 3) ''/secret''
       = (Inl (failure 3), [Request 1, Sleep 75, Request 2, Sleep 150, Request 3])"
    using t [where sftp = "channelBusyThen 2 3" and filePath = "''/secret''" and e = "failure 3"
        and n = 3]
    by (simp add: busyThen_replies transientReply_def classify_failure_4 classify_failure_3
        MAX_RETRIES_def RETRY_BASE_DELAY_MS_def)
  have f: "Request 3 \<in> set (snd (readFile channelRecovering ''/data/x'' ''utf8''))"
    "transientReply (sftp_readFile channelRecovering ''/data/x'' ''utf8'' 2)"
    "transientReply (sftp_stat channelRecovering ''/data/x'' 2)"
    "transientReply (sftp_readdir channelRecovering ''/data'' 2)"
    using t [where sftp = channelRecovering and filePath = "''/data/x''" and encoding = "''utf8''"
        and dirPath = "''/data''" and j = 3 and k = 2]
    by (simp_all add: readFile_recovering stat_recovering readdir_recovering)
  from a b c d e f show ?thesis by (intro conjI)
qed

subsection \<open>exists\<close>

text \<open>
  Claim C4. \<^verbatim>\<open>exists\<close> always resolves to a boolean: \<open>True\<close> when \<^verbatim>\<open>stat\<close> succeeds,
  \<open>False\<close> when it fails with an error classified \<open>not_found\<close>, \<open>True\<close> when it fails
  with one classified \<open>transient\<close>, \<open>False\<close> when it fails with one classified
  \<open>permanent\<close>. It sends what \<^verbatim>\<open>stat\<close> sends, and a transient failure of \<^verbatim>\<open>stat\<close> comes
  after all three attempts.
\<close>

theorem exists_resolves_boolean:
  "fst (exists sftp filePath) =
     Inr (case fst (stat sftp filePath) of
            Inr st \<Rightarrow> True
          | Inl error \<Rightarrow>
              (case classifySftpError error of
                 not_found \<Rightarrow> False | transient \<Rightarrow> True | permanent \<Rightarrow> False))
   \<and> snd (exists sftp filePath) = snd (stat sftp filePath)
   \<and> (fst (stat sftp filePath) = Inl error \<and> classifySftpError error = transient
      \<longrightarrow> snd (stat sftp filePath)
            = [Request 1, Sleep (1 * RETRY_BASE_DELAY_MS), Request 2,
               Sleep (2 * RETRY_BASE_DELAY_MS), Request 3])"
proof (intro conjI impI)
  show "fst (exists sftp filePath) =
     Inr (case fst (stat sftp filePath) of
            Inr st \<Rightarrow> True
          | Inl error \<Rightarrow>
              (case classifySftpError error of
                 not_found \<Rightarrow> False | transient \<Rightarrow> True | permanent \<Rightarrow> False))"
    by (simp add: exists_def Let_def split: prod.splits sum.splits SftpErrorKind.splits)
  show "snd (exists sftp filePath) = snd (stat sftp filePath)"
    by (simp add: exists_def Let_def split: prod.splits sum.splits)
next
  assume a: "fst (stat sftp filePath) = Inl error \<and> classifySftpError error = transient"
  then have "stat sftp filePath = (Inl error, snd (stat sftp filePath))"
    by (metis prod.collapse)
  with a show "snd (stat sftp filePath)
            = [Request 1, Sleep (1 * RETRY_BASE_DELAY_MS), Request 2,
               Sleep (2 * RETRY_BASE_DELAY_MS), Request 3]"
    unfolding stat_def RETRY_BASE_DELAY_MS_def
    using retryLoop_transient_failure_exhausted by fastforce
qed

theorem exists_resolves_boolean_witness:
  "exists (channelFailing 4) ''/data/x''
     = (Inr True, [Request 1, Sleep 75, Request 2, Sleep 150, Request 3])
   \<and> exists (channelFailing 2) ''/missing'' = (Inr False, [Request 1])
   \<and> exists (channelFailing 3) ''/secret'' = (Inr False, [Request 1])
   \<and> exists channelRecovering ''/data/x''
     = (Inr True, [Request 1, Sleep 75, Request 2, Sleep 150, Request 3])"
proof -
  have 4: "fst (stat (channelFailing 4) ''/data/x'') = Inl (failure 4)"
    by (simp add: stat_failing classify_failure_4)
  have 2: "stat (channelFailing 2) ''/missing'' = (Inl (failure 2), [Request 1])"
    by (simp add: stat_failing classify_failure_2)
  have 3: "stat (channelFailing 3) ''/secret'' = (Inl (failure 3), [Request 1])"
    by (simp add: stat_failing classify_failure_3)
  have r: "\<exists>st. fst (stat channelRecovering ''/data/x'') = Inr st"
    unfolding stat_def retryLoop_from_1 by (simp add: channelRecovering_def classify_failure_4)
  show ?thesis
    using exists_resolves_boolean [of "channelFailing 4" "''/data/x''" "failure 4"]
      exists_resolves_boolean [of "channelFailing 2" "''/missing''" "failure 2"]
      exists_resolves_boolean [of "channelFailing 3" "''/secret''" "failure 3"]
      exists_resolves_boolean [of channelRecovering "''/data/x''" "failure 4"]
      r stat_recovering
    by (auto simp add: 4 2 3 classify_failure_4 classify_failure_2 classify_failure_3
        prod_eq_iff RETRY_BASE_DELAY_MS_def)
qed

subsection \<open>createReadStream\<close>

lemma length_destroy [simp]: "length (rt_streams (destroy s e rt)) = length (rt_streams rt)"
  by (simp add: destroy_def)

lemma destroy_other: "s \<noteq> h \<Longrightarrow> rt_streams (destroy s e rt) ! h = rt_streams rt ! h"
  by (simp add: destroy_def)

lemma destroy_flowing:
  "h < length (rt_streams rt) \<Longrightarrow> rt_streams rt ! h = Flowing \<Longrightarrow>
   rt_streams (destroy h e rt) ! h = Destroyed e"
  by (simp add: destroy_def)

lemma fold_destroy_keeps:
  "list_all (\<lambda>(s, e). s \<noteq> h) q \<Longrightarrow>
   length (rt_streams (fold (\<lambda>(s, e). destroy s e) q rt)) = length (rt_streams rt)
   \<and> rt_streams (fold (\<lambda>(s, e). destroy s e) q rt) ! h = rt_streams rt ! h"
  by (induction q arbitrary: rt) (auto simp add: destroy_other)

text \<open>
  Claim C9. \<^verbatim>\<open>createReadStream\<close> never throws: it returns a stream, and the stream is live
  when it is returned. When the channel's \<^verbatim>\<open>createReadStream\<close> throws \<open>err\<close>, the
  returned stream is destroyed with \<open>err\<close> once the callbacks of the next tick have run.
\<close>

theorem createReadStream_returns_stream:
  "case createReadStream sftp filePath opts rt of
     (r, rt') \<Rightarrow>
       (\<exists>stream. r = Inr stream \<and> streamState rt' stream = Some Flowing
          \<and> (sftp_createReadStream sftp filePath (optStart opts) (optEncoding opts) = Inl err
               \<and> queueRefersToStreams rt
             \<longrightarrow> streamState (runNextTicks rt') stream = Some (Destroyed err)))"
proof (cases "sftp_createReadStream sftp filePath (optStart opts) (optEncoding opts)")
  case (Inr sftpStream)
  then show ?thesis
    by (simp add: createReadStream_def newPassThrough_def streamState_def nth_append)
next
  case (Inl e)
  define h where "h = length (rt_streams rt)"
  define rt1 where "rt1 = rt\<lparr>rt_log := rt_log rt @ [''Error creating read stream for '' @ filePath],
      rt_streams := rt_streams rt @ [Flowing], rt_nextTick := rt_nextTick rt @ [(h, e)]\<rparr>"
  have res: "createReadStream sftp filePath opts rt = (Inr h, rt1)"
    by (simp add: createReadStream_def newPassThrough_def Inl h_def rt1_def)
  have live: "streamState rt1 h = Some Flowing"
    by (simp add: streamState_def rt1_def h_def nth_append)
  have later: "streamState (runNextTicks rt1) h = Some (Destroyed e)" if wf: "queueRefersToStreams rt"
  proof -
    let ?rt0 = "rt1\<lparr>rt_nextTick := []\<rparr>"
    let ?mid = "fold (\<lambda>(s, err). destroy s err) (rt_nextTick rt) ?rt0"
    from wf have "list_all (\<lambda>(s, e). s \<noteq> h) (rt_nextTick rt)"
      by (auto simp add: queueRefersToStreams_def h_def list_all_iff)
    from fold_destroy_keeps [OF this, of ?rt0]
    have len: "length (rt_streams ?mid) = Suc h" and st: "rt_streams ?mid ! h = Flowing"
      by (simp_all add: rt1_def h_def nth_append)
    have "runNextTicks rt1 = destroy h e ?mid"
      by (simp add: runNextTicks_def rt1_def)
    with len st show ?thesis
      by (simp add: streamState_def destroy_flowing)
  qed
  from res live later Inl show ?thesis by auto
qed

theorem createReadStream_returns_stream_witness:
  "sftp_createReadStream (channelFailing 4) ''/data/x'' (optStart None) (optEncoding None)
     = Inl (failure 4)
   \<and> queueRefersToStreams freshRuntime
   \<and> fst (createReadStream (channelFailing 4) ''/data/x'' None freshRuntime) = Inr 0
   \<and> streamState (snd (createReadStream (channelFailing 4) ''/data/x'' None freshRuntime)) 0
       = Some Flowing
   \<and> streamState (runNextTicks (snd (createReadStream (channelFailing 4) ''/data/x'' None freshRuntime))) 0
       = Some (Destroyed (failure 4))"
proof -
  have f: "sftp_createReadStream (channelFailing 4) ''/data/x'' (optStart None) (optEncoding None)
     = Inl (failure 4)"
    by (simp add: channelFailing_def)
  have q: "queueRefersToStreams freshRuntime"
    by (simp add: queueRefersToStreams_def freshRuntime_def)
  have r: "fst (createReadStream (channelFailing 4) ''/data/x'' None freshRuntime) = Inr 0"
    by (simp add: createReadStream_def f newPassThrough_def freshRuntime_def)
  from createReadStream_returns_stream [where sftp = "channelFailing 4" and filePath = "''/data/x''"
      and opts = None and rt = freshRuntime and err = "failure 4"]
    f q r show ?thesis
    by (auto split: prod.splits)
qed


section \<open>Properties of contextStorage\<close>

text \<open>
  Claim C5. When the store answers the read, \<^verbatim>\<open>loadSnapshot\<close> returns none and leaves the
  store alone if no record is stored under the key; returns none and deletes the record if
  its age \<open>now - timestamp\<close> exceeds the TTL of five minutes; returns none and deletes the
  record if its version is not the current one; and otherwise returns the stored snapshot
  and leaves the store alone. Deleting is sending the store a \<^verbatim>\<open>del\<close> for the key, after
  which the record is gone unless the store rejects the request.
\<close>

theorem loadSnapshot_cases:
  assumes "\<not> get_rejects faults"
  shows
    "SNAPSHOT_TTL_MS = 5 * 60 * 1000
     \<and> (idb w (STORAGE_KEY_PREFIX @ contextId) = None \<longrightarrow>
        fst (loadSnapshot faults now contextId w) = None
        \<and> idb (snd (loadSnapshot faults now contextId w)) = idb w)
     \<and> (idb w (STORAGE_KEY_PREFIX @ contextId) = Some stored
          \<and> (now - stored_timestamp stored > SNAPSHOT_TTL_MS
              \<or> stored_version stored \<noteq> SNAPSHOT_VERSION) \<longrightarrow>
        fst (loadSnapshot faults now contextId w) = None
        \<and> IdbDel (STORAGE_KEY_PREFIX @ contextId)
            \<in> set (effects (snd (loadSnapshot faults now contextId w)))
        \<and> (\<not> del_rejects faults \<longrightarrow>
             idb (snd (loadSnapshot faults now contextId w))
               = (idb w)(STORAGE_KEY_PREFIX @ contextId := None)))
     \<and> (idb w (STORAGE_KEY_PREFIX @ contextId) = Some stored
          \<and> now - stored_timestamp stored \<le> SNAPSHOT_TTL_MS
          \<and> stored_version stored = SNAPSHOT_VERSION \<longrightarrow>
        fst (loadSnapshot faults now contextId w) = Some (stored_snapshot stored)
        \<and> idb (snd (loadSnapshot faults now contextId w)) = idb w)"
  using assms
  by (auto simp add: loadSnapshot_def deleteSnapshot_def emit_def Let_def SNAPSHOT_TTL_MS_def)

lemma idb_worldStoring:
  "idb (worldStoring c s) (STORAGE_KEY_PREFIX @ c) = Some s"
  by (simp add: worldStoring_def)

text \<open>
  No record; a record loaded six minutes after it was stored; a record of version 2; a
  record loaded exactly five minutes after it was stored, which is still returned.
\<close>

theorem loadSnapshot_cases_witness:
  "\<not> get_rejects noFaults \<and> \<not> del_rejects noFaults
   \<and> fst (loadSnapshot noFaults 5000 ''ssh-db1'' emptyWorld) = None
   \<and> fst (loadSnapshot noFaults (1000 + 6 * 60 * 1000) ''ssh-db1''
            (worldStoring ''ssh-db1'' (storedAt 1000 1))) = None
   \<and> idb (snd (loadSnapshot noFaults (1000 + 6 * 60 * 1000) ''ssh-db1''
            (worldStoring ''ssh-db1'' (storedAt 1000 1)))) (STORAGE_KEY_PREFIX @ ''ssh-db1'') = None
   \<and> fst (loadSnapshot noFaults 2000 ''ssh-db1'' (worldStoring ''ssh-db1'' (storedAt 1000 2))) = None
   \<and> idb (snd (loadSnapshot noFaults 2000 ''ssh-db1''
            (worldStoring ''ssh-db1'' (storedAt 1000 2)))) (STORAGE_KEY_PREFIX @ ''ssh-db1'') = None
   \<and> fst (loadSnapshot noFaults (1000 + 5 * 60 * 1000) ''ssh-db1''
            (worldStoring ''ssh-db1'' (storedAt 1000 1))) = Some blankSnapshot
   \<and> idb (snd (loadSnapshot noFaults (1000 + 5 * 60 * 1000) ''ssh-db1''
            (worldStoring ''ssh-db1'' (storedAt 1000 1)))) (STORAGE_KEY_PREFIX @ ''ssh-db1'')
       = Some (storedAt 1000 1)"
proof -
  have nf: "\<not> get_rejects noFaults" "\<not> del_rejects noFaults"
    by (simp_all add: noFaults_def)
  have e: "idb emptyWorld (STORAGE_KEY_PREFIX @ ''ssh-db1'') = None"
    by (simp add: emptyWorld_def)
  note t = loadSnapshot_cases [OF nf(1)]
  show ?thesis
    using t [where w = emptyWorld and contextId = "''ssh-db1''" and now = 5000]
      t [where w = "worldStoring ''ssh-db1'' (storedAt 1000 1)" and contextId = "''ssh-db1''"
          and stored = "storedAt 1000 1" and now = "1000 + 6 * 60 * 1000"]
      t [where w = "worldStoring ''ssh-db1'' (storedAt 1000 2)" and contextId = "''ssh-db1''"
          and stored = "storedAt 1000 2" and now = 2000]
      t [where w = "worldStoring ''ssh-db1'' (storedAt 1000 1)" and contextId = "''ssh-db1''"
          and stored = "storedAt 1000 1" and now = "1000 + 5 * 60 * 1000"]
    by (simp add: e nf idb_worldStoring storedAt_def SNAPSHOT_VERSION_def SNAPSHOT_TTL_MS_def)
qed

section \<open>Properties of validateSnapshot\<close>

lemma finalPanesOf_nonempty: "finalPanesOf ps \<noteq> []"
  by (simp add: finalPanesOf_def)

lemma find_pane_iff: "(find (\<lambda>p. pane_id p = f) ps \<noteq> None) = (f \<in> pane_id ` set ps)"
  by (auto simp add: find_None_iff)

lemma find_tab_iff:
  "(find (\<lambda>t. Some (tab_id t) = a) ts = None) = (a \<notin> Some ` tab_id ` set ts)"
  by (auto simp add: find_None_iff)

text \<open>The result of \<open>validateSnapshot\<close>, field by field.\<close>

lemma validateSnapshot_fields:
  fixes snapshot freshProjects freshRepoGroups
  defines "P \<equiv> validProjectIdsOf freshProjects"
    and "W \<equiv> validWorktreeIdsOf freshRepoGroups"
  defines "final \<equiv> finalPanesOf (validatedPanesOf P W (panes (paneLayout snapshot)))"
  shows "\<exists>r. validateSnapshot snapshot freshProjects freshRepoGroups = Inr r
    \<and> openTabs r = filter (keepTab P W) (openTabs snapshot)
    \<and> panes (paneLayout r) = final
    \<and> focusedPaneId (paneLayout r) =
        (if focusedPaneId (paneLayout snapshot) \<in> pane_id ` set final
         then focusedPaneId (paneLayout snapshot) else pane_id (hd final))
    \<and> selectedProjectId r =
        (if truthy (selectedProjectId snapshot) \<and> hasId P (selectedProjectId snapshot)
         then selectedProjectId snapshot else None)
    \<and> selectedWorktreeId r =
        (if truthy (selectedWorktreeId snapshot) \<and> hasId W (selectedWorktreeId snapshot)
         then selectedWorktreeId snapshot else None)
    \<and> activeProjectId r =
        (if truthy (activeProjectId snapshot)
            \<and> (hasId P (activeProjectId snapshot) \<or> hasId W (activeProjectId snapshot))
         then activeProjectId snapshot else selectedProjectId r)
    \<and> activeTabId r =
        (if truthy (activeTabId snapshot)
            \<and> activeTabId snapshot \<notin> Some ` tab_id ` set (openTabs r)
         then firstTabId (openTabs r) else activeTabId snapshot)
    \<and> selectedTabIds r =
        filter (\<lambda>i. i \<in> tab_id ` set (openTabs r)) (selectedTabIds snapshot)"
proof -
  have ne: "final \<noteq> []" by (simp add: final_def finalPanesOf_nonempty)
  then obtain p ps where f: "final = p # ps" by (cases final) auto
  have lx: "list_ex (\<lambda>t. tab_id t = i) ts = (i \<in> tab_id ` set ts)"
    for i and ts :: "Tab list"
    by (auto simp add: list_ex_iff)
  define focused where "focused =
        (if focusedPaneId (paneLayout snapshot) \<in> pane_id ` set final
         then focusedPaneId (paneLayout snapshot) else pane_id (hd final))"
  have foc: "(if find (\<lambda>p. pane_id p = focusedPaneId (paneLayout snapshot)) final \<noteq> None
               then Inr (focusedPaneId (paneLayout snapshot))
               else (case final of
                       [] \<Rightarrow> Inl (ErrorObject None ''TypeError'')
                     | p # _ \<Rightarrow> Inr (pane_id p))) = Inr focused"
    unfolding find_pane_iff focused_def by (simp add: f)
  obtain r where r: "validateSnapshot snapshot freshProjects freshRepoGroups = Inr r"
    unfolding validateSnapshot_def Let_def P_def [symmetric] W_def [symmetric]
      final_def [symmetric] foc by simp
  note r' = r [unfolded validateSnapshot_def Let_def P_def [symmetric] W_def [symmetric]
      final_def [symmetric] foc sum.case sum.inject find_tab_iff lx, symmetric]
  have 1: "openTabs r = filter (keepTab P W) (openTabs snapshot)"
    by (subst r') simp
  have 2: "panes (paneLayout r) = final"
    by (subst r') simp
  have 3: "focusedPaneId (paneLayout r) = focused"
    by (subst r') simp
  have 4: "selectedProjectId r =
        (if truthy (selectedProjectId snapshot) \<and> hasId P (selectedProjectId snapshot)
         then selectedProjectId snapshot else None)"
    by (subst r') simp
  have 5: "selectedWorktreeId r =
        (if truthy (selectedWorktreeId snapshot) \<and> hasId W (selectedWorktreeId snapshot)
         then selectedWorktreeId snapshot else None)"
    by (subst r') simp
  have 6: "activeProjectId r =
        (if truthy (activeProjectId snapshot)
            \<and> (hasId P (activeProjectId snapshot) \<or> hasId W (activeProjectId snapshot))
         then activeProjectId snapshot else selectedProjectId r)"
    unfolding 4 by (subst r') simp
  have 7: "activeTabId r =
        (if truthy (activeTabId snapshot)
            \<and> activeTabId snapshot \<notin> Some ` tab_id ` set (openTabs r)
         then firstTabId (openTabs r) else activeTabId snapshot)"
    unfolding 1 by (subst r') simp
  have 8: "selectedTabIds r =
        filter (\<lambda>i. i \<in> tab_id ` set (openTabs r)) (selectedTabIds snapshot)"
    unfolding 1 by (subst r') simp
  from r 1 2 3 4 5 6 7 8 show ?thesis
    unfolding focused_def by blast
qed


lemma keepTab_iff:
  "keepTab P W t =
     (\<not> (tab_type t = ''session'' \<and> (\<exists>p. tab_projectId t = Some p \<and> p \<noteq> [] \<and> p \<notin> P \<union> W)))"
  by (auto simp add: keepTab_def truthy_def hasId_def split: option.splits)

lemma validatePane_tabs [simp]:
  "pane_tabs (validatePane P W q) = filter (keepTab P W) (pane_tabs q)"
  by (simp add: validatePane_def Let_def)

lemma validatePane_id [simp]: "pane_id (validatePane P W q) = pane_id q"
  by (simp add: validatePane_def Let_def)

lemma validatePane_active:
  "pane_activeTabId (validatePane P W q) =
     (if pane_activeTabId q \<in> Some ` tab_id ` set (filter (keepTab P W) (pane_tabs q))
      then pane_activeTabId q else firstTabId (filter (keepTab P W) (pane_tabs q)))"
  unfolding validatePane_def Let_def find_tab_iff by simp

lemma validatePane_selected:
  "pane_selectedTabIds (validatePane P W q) =
     filter (\<lambda>i. i \<in> tab_id ` set (filter (keepTab P W) (pane_tabs q))) (pane_selectedTabIds q)"
  by (simp add: validatePane_def Let_def list_ex_iff image_iff) (metis)

lemma validatedPanesOf_alt:
  "validatedPanesOf P W ps =
     map (validatePane P W) (filter (\<lambda>q. filter (keepTab P W) (pane_tabs q) \<noteq> []) ps)"
  by (induction ps) (simp_all add: validatedPanesOf_def)

lemma firstTabId_mem: "ts \<noteq> [] \<Longrightarrow> firstTabId ts \<in> Some ` tab_id ` set ts"
  by (cases ts) (simp_all add: firstTabId_def)

lemma finalPanes_tabs:
  assumes "pane \<in> set (finalPanesOf (validatedPanesOf P W ps))" "t \<in> set (pane_tabs pane)"
  shows "keepTab P W t"
  using assms
  by (auto simp add: finalPanesOf_def validatedPanesOf_alt defaultPane_def split: if_splits)

lemma finalPanes_active:
  assumes "pane \<in> set (finalPanesOf (validatedPanesOf P W ps))"
  shows "(pane_tabs pane = [] \<and> pane_activeTabId pane = None)
         \<or> pane_activeTabId pane \<in> Some ` tab_id ` set (pane_tabs pane)"
proof (cases "validatedPanesOf P W ps = []")
  case True
  with assms show ?thesis by (simp add: finalPanesOf_def defaultPane_def)
next
  case False
  with assms obtain q where q: "pane = validatePane P W q"
      "filter (keepTab P W) (pane_tabs q) \<noteq> []"
    by (auto simp add: finalPanesOf_def validatedPanesOf_alt)
  then show ?thesis
    using firstTabId_mem [OF q(2)] by (simp add: validatePane_active)
qed

lemma finalPanes_selected:
  assumes "pane \<in> set (finalPanesOf (validatedPanesOf P W ps))"
  shows "set (pane_selectedTabIds pane) \<subseteq> tab_id ` set (pane_tabs pane)"
  using assms
  by (auto simp add: finalPanesOf_def validatedPanesOf_alt defaultPane_def validatePane_selected
      split: if_splits)

lemma finalPanes_regions:
  "(\<forall>pane \<in> set (finalPanesOf (validatedPanesOf P W ps)). pane_tabs pane \<noteq> [])
   \<or> finalPanesOf (validatedPanesOf P W ps) = [defaultPane]"
  by (auto simp add: finalPanesOf_def validatedPanesOf_alt)


text \<open>
  Claim C6 says that \<^verbatim>\<open>validateSnapshot\<close> removes each tab whose referenced project or
  workspace id is absent from the fresh lists. The filter tests the project id of session
  tabs only (\<^verbatim>\<open>tab.type === 'session' && tab.projectId\<close>, "keep dashboard and non-session
  tabs"): a tab of another type stays, in the tab list and in its pane, with the id of a
  project that is gone.
\<close>

theorem validateSnapshot_keeps_foreign_tab:
  "tab_projectId foreignTab = Some ''p9''
   \<and> ''p9'' \<notin> validProjectIdsOf freshProjects1 \<union> validWorktreeIdsOf freshRepoGroups1
   \<and> map_sum id openTabs (validateSnapshot foreignSnapshot freshProjects1 freshRepoGroups1)
       = Inr [foreignTab]
   \<and> map_sum id (map pane_tabs \<circ> panes \<circ> paneLayout)
         (validateSnapshot foreignSnapshot freshProjects1 freshRepoGroups1)
       = Inr [[foreignTab]]"
  by (simp add: validateSnapshot_def validProjectIdsOf_def validWorktreeIdsOf_def
      validatedPanesOf_def finalPanesOf_def validatePane_def keepTab_def truthy_def hasId_def
      firstTabId_def Let_def foreignSnapshot_def foreignTab_def blankSnapshot_def
      freshProjects1_def freshRepoGroups1_def paneOf_def)

text \<open>
  Claim C6, amended. \<^verbatim>\<open>validateSnapshot\<close> never throws, and in its result: the open tabs
  are the snapshot's tabs without the session tabs whose non-empty project id is in neither
  fresh list, and no pane holds such a tab; the selected project, the selected worktree
  and the active project are ids of the fresh lists or none, and are kept when they are;
  the selected tab ids name open tabs; an active tab that was removed is replaced by the
  first remaining tab or none, in the layout as in every pane; the panes are the snapshot's
  panes that keep a tab, or the single default pane when none does; so there is always at
  least one pane.
\<close>

theorem validateSnapshot_reconciles:
  fixes snapshot freshProjects freshRepoGroups
  defines "P \<equiv> validProjectIdsOf freshProjects"
    and "W \<equiv> validWorktreeIdsOf freshRepoGroups"
  shows "\<exists>r. validateSnapshot snapshot freshProjects freshRepoGroups = Inr r
    \<and> openTabs r =
        filter (\<lambda>t. \<not> (tab_type t = ''session''
                      \<and> (\<exists>p. tab_projectId t = Some p \<and> p \<noteq> [] \<and> p \<notin> P \<union> W)))
          (openTabs snapshot)
    \<and> (\<forall>pane \<in> set (panes (paneLayout r)). \<forall>t \<in> set (pane_tabs pane).
          \<not> (tab_type t = ''session''
             \<and> (\<exists>p. tab_projectId t = Some p \<and> p \<noteq> [] \<and> p \<notin> P \<union> W)))
    \<and> (\<forall>x. selectedProjectId r = Some x \<longrightarrow> x \<in> P \<and> selectedProjectId snapshot = Some x)
    \<and> (\<forall>x. selectedWorktreeId r = Some x \<longrightarrow> x \<in> W \<and> selectedWorktreeId snapshot = Some x)
    \<and> (\<forall>x. activeProjectId r = Some x \<longrightarrow>
          x \<in> P \<union> W \<and> (activeProjectId snapshot = Some x \<or> selectedProjectId r = Some x))
    \<and> (\<forall>x. x \<noteq> [] \<and> x \<in> P \<and> selectedProjectId snapshot = Some x \<longrightarrow> selectedProjectId r = Some x)
    \<and> (\<forall>x. x \<noteq> [] \<and> x \<in> W \<and> selectedWorktreeId snapshot = Some x \<longrightarrow> selectedWorktreeId r = Some x)
    \<and> (\<forall>x. x \<noteq> [] \<and> x \<in> P \<union> W \<and> activeProjectId snapshot = Some x \<longrightarrow> activeProjectId r = Some x)
    \<and> set (selectedTabIds r) \<subseteq> tab_id ` set (openTabs r)
    \<and> activeTabId r =
        (if truthy (activeTabId snapshot)
            \<and> activeTabId snapshot \<notin> Some ` tab_id ` set (openTabs r)
         then firstTabId (openTabs r) else activeTabId snapshot)
    \<and> (\<forall>pane \<in> set (panes (paneLayout r)).
          (pane_tabs pane = [] \<and> pane_activeTabId pane = None)
          \<or> pane_activeTabId pane \<in> Some ` tab_id ` set (pane_tabs pane))
    \<and> (\<forall>pane \<in> set (panes (paneLayout r)).
          set (pane_selectedTabIds pane) \<subseteq> tab_id ` set (pane_tabs pane))
    \<and> panes (paneLayout r) =
        (if list_all (\<lambda>q. filter (keepTab P W) (pane_tabs q) = []) (panes (paneLayout snapshot))
         then [defaultPane]
         else map (validatePane P W)
                (filter (\<lambda>q. filter (keepTab P W) (pane_tabs q) \<noteq> []) (panes (paneLayout snapshot))))
    \<and> ((\<forall>pane \<in> set (panes (paneLayout r)). pane_tabs pane \<noteq> [])
        \<or> panes (paneLayout r) = [defaultPane])
    \<and> panes (paneLayout r) \<noteq> []"
proof -
  let ?final = "finalPanesOf (validatedPanesOf P W (panes (paneLayout snapshot)))"
  from validateSnapshot_fields [of snapshot freshProjects freshRepoGroups]
  obtain r where r: "validateSnapshot snapshot freshProjects freshRepoGroups = Inr r"
    and tabs: "openTabs r = filter (keepTab P W) (openTabs snapshot)"
    and pl: "panes (paneLayout r) = ?final"
    and sp: "selectedProjectId r =
        (if truthy (selectedProjectId snapshot) \<and> hasId P (selectedProjectId snapshot)
         then selectedProjectId snapshot else None)"
    and sw: "selectedWorktreeId r =
        (if truthy (selectedWorktreeId snapshot) \<and> hasId W (selectedWorktreeId snapshot)
         then selectedWorktreeId snapshot else None)"
    and ap: "activeProjectId r =
        (if truthy (activeProjectId snapshot)
            \<and> (hasId P (activeProjectId snapshot) \<or> hasId W (activeProjectId snapshot))
         then activeProjectId snapshot else selectedProjectId r)"
    and at: "activeTabId r =
        (if truthy (activeTabId snapshot)
            \<and> activeTabId snapshot \<notin> Some ` tab_id ` set (openTabs r)
         then firstTabId (openTabs r) else activeTabId snapshot)"
    and st: "selectedTabIds r =
        filter (\<lambda>i. i \<in> tab_id ` set (openTabs r)) (selectedTabIds snapshot)"
    unfolding P_def W_def by blast
  have c1: "openTabs r =
        filter (\<lambda>t. \<not> (tab_type t = ''session''
                      \<and> (\<exists>p. tab_projectId t = Some p \<and> p \<noteq> [] \<and> p \<notin> P \<union> W)))
          (openTabs snapshot)"
    unfolding tabs keepTab_iff ..
  have c2: "\<forall>pane \<in> set (panes (paneLayout r)). \<forall>t \<in> set (pane_tabs pane).
          \<not> (tab_type t = ''session''
             \<and> (\<exists>p. tab_projectId t = Some p \<and> p \<noteq> [] \<and> p \<notin> P \<union> W))"
    unfolding pl using finalPanes_tabs [of _ P W "panes (paneLayout snapshot)"]
    unfolding keepTab_iff by blast
  have c3: "\<forall>x. selectedProjectId r = Some x \<longrightarrow> x \<in> P \<and> selectedProjectId snapshot = Some x"
    unfolding sp by (auto simp add: hasId_def split: if_splits)
  have c4: "\<forall>x. selectedWorktreeId r = Some x \<longrightarrow> x \<in> W \<and> selectedWorktreeId snapshot = Some x"
    unfolding sw by (auto simp add: hasId_def split: if_splits)
  have c5: "\<forall>x. activeProjectId r = Some x \<longrightarrow>
          x \<in> P \<union> W \<and> (activeProjectId snapshot = Some x \<or> selectedProjectId r = Some x)"
    using c3 unfolding ap by (auto simp add: hasId_def split: if_splits)
  have c6: "\<forall>x. x \<noteq> [] \<and> x \<in> P \<and> selectedProjectId snapshot = Some x \<longrightarrow> selectedProjectId r = Some x"
    unfolding sp by (simp add: hasId_def truthy_def)
  have c7: "\<forall>x. x \<noteq> [] \<and> x \<in> W \<and> selectedWorktreeId snapshot = Some x \<longrightarrow> selectedWorktreeId r = Some x"
    unfolding sw by (simp add: hasId_def truthy_def)
  have c8: "\<forall>x. x \<noteq> [] \<and> x \<in> P \<union> W \<and> activeProjectId snapshot = Some x \<longrightarrow> activeProjectId r = Some x"
    unfolding ap by (auto simp add: hasId_def truthy_def)
  have c9: "set (selectedTabIds r) \<subseteq> tab_id ` set (openTabs r)"
    unfolding st by auto
  have c10: "\<forall>pane \<in> set (panes (paneLayout r)).
          (pane_tabs pane = [] \<and> pane_activeTabId pane = None)
          \<or> pane_activeTabId pane \<in> Some ` tab_id ` set (pane_tabs pane)"
    unfolding pl using finalPanes_active by blast
  have c11: "\<forall>pane \<in> set (panes (paneLayout r)).
          set (pane_selectedTabIds pane) \<subseteq> tab_id ` set (pane_tabs pane)"
    unfolding pl using finalPanes_selected by blast
  have c12: "panes (paneLayout r) =
        (if list_all (\<lambda>q. filter (keepTab P W) (pane_tabs q) = []) (panes (paneLayout snapshot))
         then [defaultPane]
         else map (validatePane P W)
                (filter (\<lambda>q. filter (keepTab P W) (pane_tabs q) \<noteq> []) (panes (paneLayout snapshot))))"
    unfolding pl finalPanesOf_def validatedPanesOf_alt
    by (simp add: list_all_iff filter_empty_conv)
  have c13: "(\<forall>pane \<in> set (panes (paneLayout r)). pane_tabs pane \<noteq> [])
        \<or> panes (paneLayout r) = [defaultPane]"
    unfolding pl by (rule finalPanes_regions)
  have c14: "panes (paneLayout r) \<noteq> []"
    unfolding pl by (rule finalPanesOf_nonempty)
  from r c1 c2 c3 c4 c5 c6 c7 c8 c9 at c10 c11 c12 c13 c14 show ?thesis by blast
qed


text \<open>The example snapshots, evaluated.\<close>

lemmas example_defs =
  mixedSnapshot_def staleSnapshot_def blankSnapshot_def freshProjects1_def freshRepoGroups1_def
  sessionTab_def dashboardTab_def paneOf_def defaultPane_def

lemmas validate_defs =
  validateSnapshot_def validProjectIdsOf_def validWorktreeIdsOf_def validatedPanesOf_def
  finalPanesOf_def validatePane_def keepTab_def truthy_def hasId_def firstTabId_def Let_def

lemma validate_mixed:
  "validateSnapshot mixedSnapshot freshProjects1 freshRepoGroups1 =
     Inr (Workspace.truncate mixedSnapshot
       \<lparr> projects := freshProjects1,
         repositoryGroups := freshRepoGroups1,
         selectedProjectId := None,
         openTabs := [sessionTab ''t1'' ''p1'', dashboardTab ''t3'', sessionTab ''t4'' ''w1''],
         activeTabId := Some ''t1'',
         selectedTabIds := [''t1''],
         activeProjectId := None,
         paneLayout :=
           \<lparr> panes = [paneOf ''pane-a'' [sessionTab ''t1'' ''p1'', dashboardTab ''t3''] ''t3'',
                       paneOf ''pane-c'' [sessionTab ''t4'' ''w1''] ''t4''
                         \<lparr> pane_selectedTabIds := [] \<rparr>],
             focusedPaneId = ''pane-a'' \<rparr> \<rparr>)"
  by (simp add: validate_defs example_defs Workspace.truncate_def)

lemma validate_stale:
  "validateSnapshot staleSnapshot freshProjects1 freshRepoGroups1 =
     Inr (Workspace.truncate staleSnapshot
       \<lparr> projects := freshProjects1,
         repositoryGroups := freshRepoGroups1,
         openTabs := [],
         activeTabId := None,
         paneLayout := \<lparr> panes = [defaultPane], focusedPaneId = ''pane-default'' \<rparr> \<rparr>)"
  by (simp add: validate_defs example_defs Workspace.truncate_def)


text \<open>
  A snapshot whose selected project, active project, active tab and focused pane belong to
  a project that is gone, and one whose only pane is left empty.
\<close>

theorem validateSnapshot_reconciles_witness:
  "(\<exists>r. validateSnapshot mixedSnapshot freshProjects1 freshRepoGroups1 = Inr r
      \<and> openTabs r = [sessionTab ''t1'' ''p1'', dashboardTab ''t3'', sessionTab ''t4'' ''w1'']
      \<and> activeTabId r = Some ''t1''
      \<and> selectedTabIds r = [''t1'']
      \<and> selectedProjectId r = None
      \<and> selectedWorktreeId r = Some ''w1''
      \<and> activeProjectId r = None
      \<and> map pane_id (panes (paneLayout r)) = [''pane-a'', ''pane-c'']
      \<and> map pane_tabs (panes (paneLayout r))
          = [[sessionTab ''t1'' ''p1'', dashboardTab ''t3''], [sessionTab ''t4'' ''w1'']]
      \<and> map pane_activeTabId (panes (paneLayout r)) = [Some ''t3'', Some ''t4''])
   \<and> (\<exists>r. validateSnapshot staleSnapshot freshProjects1 freshRepoGroups1 = Inr r
      \<and> openTabs r = []
      \<and> activeTabId r = None
      \<and> panes (paneLayout r) = [defaultPane])"
proof -
  from validateSnapshot_reconciles [of mixedSnapshot freshProjects1 freshRepoGroups1]
  obtain r where r: "validateSnapshot mixedSnapshot freshProjects1 freshRepoGroups1 = Inr r"
    and tabs: "openTabs r =
        filter (\<lambda>t. \<not> (tab_type t = ''session''
                      \<and> (\<exists>p. tab_projectId t = Some p \<and> p \<noteq> []
                            \<and> p \<notin> validProjectIdsOf freshProjects1 \<union> validWorktreeIdsOf freshRepoGroups1)))
          (openTabs mixedSnapshot)"
    by - (erule exE, (erule conjE)+, rule that, assumption+)
  have 1: "openTabs r = [sessionTab ''t1'' ''p1'', dashboardTab ''t3'', sessionTab ''t4'' ''w1'']"
    unfolding tabs
    by (simp add: example_defs validProjectIdsOf_def validWorktreeIdsOf_def)
  from r have e: "r = Workspace.truncate mixedSnapshot
       \<lparr> projects := freshProjects1,
         repositoryGroups := freshRepoGroups1,
         selectedProjectId := None,
         openTabs := [sessionTab ''t1'' ''p1'', dashboardTab ''t3'', sessionTab ''t4'' ''w1''],
         activeTabId := Some ''t1'',
         selectedTabIds := [''t1''],
         activeProjectId := None,
         paneLayout :=
           \<lparr> panes = [paneOf ''pane-a'' [sessionTab ''t1'' ''p1'', dashboardTab ''t3''] ''t3'',
                       paneOf ''pane-c'' [sessionTab ''t4'' ''w1''] ''t4''
                         \<lparr> pane_selectedTabIds := [] \<rparr>],
             focusedPaneId = ''pane-a'' \<rparr> \<rparr>"
    unfolding validate_mixed by simp
  have 2: "activeTabId r = Some ''t1''" "selectedTabIds r = [''t1'']" "selectedProjectId r = None"
    "selectedWorktreeId r = Some ''w1''" "activeProjectId r = None"
    "map pane_id (panes (paneLayout r)) = [''pane-a'', ''pane-c'']"
    "map pane_tabs (panes (paneLayout r))
          = [[sessionTab ''t1'' ''p1'', dashboardTab ''t3''], [sessionTab ''t4'' ''w1'']]"
    "map pane_activeTabId (panes (paneLayout r)) = [Some ''t3'', Some ''t4'']"
    unfolding e
    by (simp_all add: Workspace.truncate_def mixedSnapshot_def blankSnapshot_def paneOf_def)
  from validateSnapshot_reconciles [of staleSnapshot freshProjects1 freshRepoGroups1]
  obtain r' where r': "validateSnapshot staleSnapshot freshProjects1 freshRepoGroups1 = Inr r'"
    and regions: "(\<forall>pane \<in> set (panes (paneLayout r')). pane_tabs pane \<noteq> [])
        \<or> panes (paneLayout r') = [defaultPane]"
    by - (erule exE, (erule conjE)+, rule that, assumption+)
  from r' have e': "r' = Workspace.truncate staleSnapshot
       \<lparr> projects := freshProjects1,
         repositoryGroups := freshRepoGroups1,
         openTabs := [],
         activeTabId := None,
         paneLayout := \<lparr> panes = [defaultPane], focusedPaneId = ''pane-default'' \<rparr> \<rparr>"
    unfolding validate_stale by simp
  have 3: "openTabs r' = []" "activeTabId r' = None" "panes (paneLayout r') = [defaultPane]"
    unfolding e' by (simp_all add: Workspace.truncate_def)
  from r 1 2 have A: "\<exists>r. validateSnapshot mixedSnapshot freshProjects1 freshRepoGroups1 = Inr r
      \<and> openTabs r = [sessionTab ''t1'' ''p1'', dashboardTab ''t3'', sessionTab ''t4'' ''w1'']
      \<and> activeTabId r = Some ''t1''
      \<and> selectedTabIds r = [''t1'']
      \<and> selectedProjectId r = None
      \<and> selectedWorktreeId r = Some ''w1''
      \<and> activeProjectId r = None
      \<and> map pane_id (panes (paneLayout r)) = [''pane-a'', ''pane-c'']
      \<and> map pane_tabs (panes (paneLayout r))
          = [[sessionTab ''t1'' ''p1'', dashboardTab ''t3''], [sessionTab ''t4'' ''w1'']]
      \<and> map pane_activeTabId (panes (paneLayout r)) = [Some ''t3'', Some ''t4'']"
    by (intro exI [of _ r] conjI)
  from r' 3 have B: "\<exists>r. validateSnapshot staleSnapshot freshProjects1 freshRepoGroups1 = Inr r
      \<and> openTabs r = []
      \<and> activeTabId r = None
      \<and> panes (paneLayout r) = [defaultPane]"
    by (intro exI [of _ r'] conjI)
  from A B show ?thesis by (rule conjI)
qed

text \<open>
  Claim C10. The focused pane of the validated layout is a pane of that layout: it is the
  snapshot's focused pane when a pane with that id survives the filtering, and the first
  pane of the result otherwise.
\<close>

theorem validateSnapshot_focused_pane:
  "\<exists>r p ps. validateSnapshot snapshot freshProjects freshRepoGroups = Inr r
     \<and> panes (paneLayout r) = p # ps
     \<and> focusedPaneId (paneLayout r) \<in> pane_id ` set (panes (paneLayout r))
     \<and> focusedPaneId (paneLayout r) =
         (if focusedPaneId (paneLayout snapshot)
               \<in> pane_id ` set (validatedPanesOf (validProjectIdsOf freshProjects)
                                   (validWorktreeIdsOf freshRepoGroups) (panes (paneLayout snapshot)))
          then focusedPaneId (paneLayout snapshot)
          else pane_id p)"
proof -
  let ?vp = "validatedPanesOf (validProjectIdsOf freshProjects)
      (validWorktreeIdsOf freshRepoGroups) (panes (paneLayout snapshot))"
  let ?f = "focusedPaneId (paneLayout snapshot)"
  from validateSnapshot_fields [of snapshot freshProjects freshRepoGroups]
  obtain r where r: "validateSnapshot snapshot freshProjects freshRepoGroups = Inr r"
    and pl: "panes (paneLayout r) = finalPanesOf ?vp"
    and fo: "focusedPaneId (paneLayout r) =
        (if ?f \<in> pane_id ` set (finalPanesOf ?vp) then ?f else pane_id (hd (finalPanesOf ?vp)))"
    by blast
  obtain p ps where ps: "finalPanesOf ?vp = p # ps"
    using finalPanesOf_nonempty [of ?vp] by (cases "finalPanesOf ?vp") auto
  have mem: "focusedPaneId (paneLayout r) \<in> pane_id ` set (panes (paneLayout r))"
    unfolding fo pl ps by simp
  have val: "focusedPaneId (paneLayout r) = (if ?f \<in> pane_id ` set ?vp then ?f else pane_id p)"
  proof (cases "?vp = []")
    case True
    then have "finalPanesOf ?vp = [defaultPane]" by (simp add: finalPanesOf_def)
    with ps have "p = defaultPane" "ps = []" by simp_all
    with True fo ps show ?thesis by auto
  next
    case False
    then have "finalPanesOf ?vp = ?vp" by (simp add: finalPanesOf_def)
    with fo ps show ?thesis by simp
  qed
  from r pl ps mem val show ?thesis by auto
qed

text \<open>
  The focused pane is dropped; the focused pane survives; no pane survives.
\<close>

theorem validateSnapshot_focused_pane_witness:
  "(\<exists>r. validateSnapshot mixedSnapshot freshProjects1 freshRepoGroups1 = Inr r
      \<and> map pane_id (panes (paneLayout r)) = [''pane-a'', ''pane-c'']
      \<and> focusedPaneId (paneLayout mixedSnapshot) = ''pane-b''
      \<and> focusedPaneId (paneLayout r) = ''pane-a'')
   \<and> (\<exists>r. validateSnapshot (mixedSnapshot\<lparr>paneLayout := (paneLayout mixedSnapshot)\<lparr>focusedPaneId := ''pane-c''\<rparr>\<rparr>)
              freshProjects1 freshRepoGroups1 = Inr r
      \<and> map pane_id (panes (paneLayout r)) = [''pane-a'', ''pane-c'']
      \<and> focusedPaneId (paneLayout r) = ''pane-c'')
   \<and> (\<exists>r. validateSnapshot staleSnapshot freshProjects1 freshRepoGroups1 = Inr r
      \<and> map pane_id (panes (paneLayout r)) = [''pane-default'']
      \<and> focusedPaneId (paneLayout r) = ''pane-default'')"
proof -
  have vp: "validatedPanesOf (validProjectIdsOf freshProjects1) (validWorktreeIdsOf freshRepoGroups1)
      (panes (paneLayout mixedSnapshot))
    = [paneOf ''pane-a'' [sessionTab ''t1'' ''p1'', dashboardTab ''t3''] ''t3'',
       paneOf ''pane-c'' [sessionTab ''t4'' ''w1''] ''t4'' \<lparr> pane_selectedTabIds := [] \<rparr>]"
    by (simp add: validate_defs example_defs)
  have vs: "validatedPanesOf (validProjectIdsOf freshProjects1) (validWorktreeIdsOf freshRepoGroups1)
      (panes (paneLayout staleSnapshot)) = []"
    by (simp add: validate_defs example_defs)
  have f: "focusedPaneId (paneLayout mixedSnapshot) = ''pane-b''"
      "focusedPaneId (paneLayout staleSnapshot) = ''pane-b''"
    by (simp_all add: example_defs)
  let ?m = "mixedSnapshot\<lparr>paneLayout := (paneLayout mixedSnapshot)\<lparr>focusedPaneId := ''pane-c''\<rparr>\<rparr>"
  have pc: "panes (paneLayout ?m) = panes (paneLayout mixedSnapshot)"
      "focusedPaneId (paneLayout ?m) = ''pane-c''"
    by simp_all
  from validateSnapshot_focused_pane [of mixedSnapshot freshProjects1 freshRepoGroups1]
  obtain r p ps where r: "validateSnapshot mixedSnapshot freshProjects1 freshRepoGroups1 = Inr r"
    and pl: "panes (paneLayout r) = p # ps"
    and fo: "focusedPaneId (paneLayout r) = pane_id p"
    unfolding vp f by (auto simp add: paneOf_def)
  have 1: "map pane_id (panes (paneLayout r)) = [''pane-a'', ''pane-c'']"
    using r unfolding validate_mixed by (auto simp add: paneOf_def)
  with pl fo have 2: "focusedPaneId (paneLayout r) = ''pane-a''" by simp
  from validateSnapshot_focused_pane [of ?m freshProjects1 freshRepoGroups1]
  obtain r' where r': "validateSnapshot ?m freshProjects1 freshRepoGroups1 = Inr r'"
    and fo': "focusedPaneId (paneLayout r') = ''pane-c''"
    unfolding pc vp by (auto simp add: paneOf_def)
  have pl': "panes (paneLayout r') = finalPanesOf (validatedPanesOf (validProjectIdsOf freshProjects1)
      (validWorktreeIdsOf freshRepoGroups1) (panes (paneLayout ?m)))"
    using validateSnapshot_fields [of ?m freshProjects1 freshRepoGroups1] r' by auto
  have 3: "map pane_id (panes (paneLayout r')) = [''pane-a'', ''pane-c'']"
    unfolding pl' pc vp by (simp add: finalPanesOf_def paneOf_def)
  from validateSnapshot_focused_pane [of staleSnapshot freshProjects1 freshRepoGroups1]
  obtain r'' p'' ps'' where r'': "validateSnapshot staleSnapshot freshProjects1 freshRepoGroups1 = Inr r''"
    and pl'': "panes (paneLayout r'') = p'' # ps''"
    and fo'': "focusedPaneId (paneLayout r'') = pane_id p''"
    unfolding vs by auto
  have 4: "map pane_id (panes (paneLayout r'')) = [''pane-default'']"
    using r'' unfolding validate_stale by (auto simp add: defaultPane_def)
  with pl'' fo'' have 5: "focusedPaneId (paneLayout r'') = ''pane-default''" by simp
  from r 1 f(1) 2 have A: "\<exists>r. validateSnapshot mixedSnapshot freshProjects1 freshRepoGroups1 = Inr r
      \<and> map pane_id (panes (paneLayout r)) = [''pane-a'', ''pane-c'']
      \<and> focusedPaneId (paneLayout mixedSnapshot) = ''pane-b''
      \<and> focusedPaneId (paneLayout r) = ''pane-a''"
    by (intro exI [of _ r] conjI)
  from r' 3 fo' have B: "\<exists>r. validateSnapshot ?m freshProjects1 freshRepoGroups1 = Inr r
      \<and> map pane_id (panes (paneLayout r)) = [''pane-a'', ''pane-c'']
      \<and> focusedPaneId (paneLayout r) = ''pane-c''"
    by (intro exI [of _ r'] conjI)
  from r'' 4 5 have C: "\<exists>r. validateSnapshot staleSnapshot freshProjects1 freshRepoGroups1 = Inr r
      \<and> map pane_id (panes (paneLayout r)) = [''pane-default'']
      \<and> focusedPaneId (paneLayout r) = ''pane-default''"
    by (intro exI [of _ r''] conjI)
  from A B C show ?thesis by (intro conjI)
qed

section \<open>Properties of switchContext\<close>

subsection \<open>Which calls fail\<close>

text \<open>
  Saving and loading a snapshot catch their own errors and \<open>validateSnapshot\<close> never
  throws, so a switch fails exactly when the main process rejects the switch or one of the
  two fetches.
\<close>

lemma validateSnapshot_never_throws:
  "validateSnapshot snapshot freshProjects freshRepoGroups \<noteq> Inl error"
  using validateSnapshot_fields [of snapshot freshProjects freshRepoGroups] by auto

lemma restored_never_throws:
  "map_sum id f (validateSnapshot snapshot freshProjects freshRepoGroups) \<noteq> Inl error"
  using validateSnapshot_never_throws [of snapshot freshProjects freshRepoGroups]
  by (cases "validateSnapshot snapshot freshProjects freshRepoGroups") auto

lemma switchContext_outcome:
  "fst (switchContext env fullReset targetId (state, w)) =
     (if targetId = activeContextId state then AlreadyActive
      else case env_contextSwitch env targetId of
             Some error \<Rightarrow> Failed error
           | None \<Rightarrow>
               (case env_getProjects env of
                  Inl error \<Rightarrow> Failed error
                | Inr freshProjects \<Rightarrow>
                    (case env_getRepositoryGroups env of
                       Inl error \<Rightarrow> Failed error
                     | Inr freshRepoGroups \<Rightarrow> Switched)))"
  by (auto simp add: restored_never_throws switchContext_def failSwitch_def Let_def
      split: option.splits sum.splits prod.splits)

text \<open>
  Claim C1. When a switch fails, at whatever step, the state afterwards is the state before
  the call with the switch-in-progress flag false and no target: the active context id is
  the one before the attempt.
\<close>

theorem switchContext_failure_restores:
  assumes "switchContext env fullReset targetId (state, w) = (Failed error, state', w')"
  shows "activeContextId state' = activeContextId state
         \<and> \<not> isContextSwitching state'
         \<and> state' = state\<lparr>isContextSwitching := False, targetContextId := None\<rparr>"
  using assms
  by (auto simp add: switchContext_def failSwitch_def Let_def
      split: option.splits sum.splits prod.splits if_splits)

text \<open>
  Claim C8. A switch to the context that is already active returns at once: the state and
  the store are unchanged and no request is sent (no snapshot write, no fetch).
\<close>

theorem switchContext_same_context:
  "switchContext env fullReset (activeContextId state) (state, w) = (AlreadyActive, state, w)"
  by (simp add: switchContext_def)


subsection \<open>The example switches\<close>

lemma outcome_switchRejecting:
  "fst (switchContext switchRejectingEnv fullReset ''ssh-db1'' (localState, emptyWorld))
     = Failed ipcError"
  unfolding switchContext_outcome
  by (simp add: switchRejectingEnv_def okEnv_def localState_def)

lemma outcome_fetchRejecting:
  "fst (switchContext fetchRejectingEnv fullReset ''ssh-db1'' (localState, emptyWorld))
     = Failed ipcError"
  unfolding switchContext_outcome
  by (simp add: fetchRejectingEnv_def okEnv_def localState_def)

lemma effects_fetchRejecting:
  "effects (snd (snd (switchContext fetchRejectingEnv fullReset ''ssh-db1'' (localState, emptyWorld))))
     = [IdbSet ''context-snapshot:local'', ContextSwitch ''ssh-db1'', GetProjects,
        GetRepositoryGroups, ConsoleError ''[contextSlice] Failed to switch context:'']"
  by (simp add: switchContext_def failSwitch_def Let_def fetchRejectingEnv_def okEnv_def
      localState_def emptyWorld_def saveSnapshot_def emit_def noFaults_def STORAGE_KEY_PREFIX_def)

text \<open>
  The main process rejects the switch; the main process switches and then a fetch is
  rejected.
\<close>

theorem switchContext_failure_restores_witness:
  "fst (switchContext switchRejectingEnv id ''ssh-db1'' (localState, emptyWorld)) = Failed ipcError
   \<and> activeContextId (fst (snd (switchContext switchRejectingEnv id ''ssh-db1'' (localState, emptyWorld))))
       = ''local''
   \<and> \<not> isContextSwitching (fst (snd (switchContext switchRejectingEnv id ''ssh-db1'' (localState, emptyWorld))))
   \<and> fst (switchContext fetchRejectingEnv id ''ssh-db1'' (localState, emptyWorld)) = Failed ipcError
   \<and> fst (snd (switchContext fetchRejectingEnv id ''ssh-db1'' (localState, emptyWorld))) = localState
   \<and> ContextSwitch ''ssh-db1''
       \<in> set (effects (snd (snd (switchContext fetchRejectingEnv id ''ssh-db1'' (localState, emptyWorld)))))"
proof -
  let ?a = "switchContext switchRejectingEnv id ''ssh-db1'' (localState, emptyWorld)"
  let ?b = "switchContext fetchRejectingEnv id ''ssh-db1'' (localState, emptyWorld)"
  have a: "?a = (Failed ipcError, fst (snd ?a), snd (snd ?a))"
    using outcome_switchRejecting [of id] by (simp add: prod_eq_iff)
  have b: "?b = (Failed ipcError, fst (snd ?b), snd (snd ?b))"
    using outcome_fetchRejecting [of id] by (simp add: prod_eq_iff)
  have l: "activeContextId localState = ''local''" "\<not> isContextSwitching localState"
      "localState\<lparr>isContextSwitching := False, targetContextId := None\<rparr> = localState"
    by (simp_all add: localState_def)
  from switchContext_failure_restores [OF a] switchContext_failure_restores [OF b]
    outcome_switchRejecting [of id] outcome_fetchRejecting [of id] effects_fetchRejecting [of id]
  show ?thesis
    by (simp add: l)
qed

theorem switchContext_same_context_witness:
  "switchContext okEnv id ''local'' (localState, emptyWorld) = (AlreadyActive, localState, emptyWorld)
   \<and> switchContext okEnv id ''local'' (busyState, emptyWorld) = (AlreadyActive, busyState, emptyWorld)"
  using switchContext_same_context [of okEnv id localState emptyWorld]
    switchContext_same_context [of okEnv id busyState emptyWorld]
  by (simp add: localState_def busyState_def)


subsection \<open>A call while a switch is in flight\<close>

text \<open>The list of requests only grows, and a switch to another context starts with a save.\<close>

lemma effects_emit: "effects (emit e w) = effects w @ [e]"
  by (simp add: emit_def)

lemma effects_saveSnapshot:
  "\<exists>rest. effects (saveSnapshot faults now contextId snapshot w)
     = effects w @ IdbSet (STORAGE_KEY_PREFIX @ contextId) # rest"
  by (simp add: saveSnapshot_def Let_def effects_emit)

lemma effects_deleteSnapshot:
  "\<exists>rest. effects (deleteSnapshot faults contextId w) = effects w @ rest"
  by (simp add: deleteSnapshot_def Let_def effects_emit)

lemma effects_loadSnapshot:
  "\<exists>rest. effects (snd (loadSnapshot faults now contextId w)) = effects w @ rest"
proof -
  have d: "\<exists>rest. effects (deleteSnapshot faults contextId (w\<lparr>effects := effects w @ pre\<rparr>))
      = effects w @ rest" for pre
    using effects_deleteSnapshot [of faults contextId "w\<lparr>effects := effects w @ pre\<rparr>"] by auto
  show ?thesis
    using d [of "[IdbGet (STORAGE_KEY_PREFIX @ contextId)]"]
      d [of "[IdbGet (STORAGE_KEY_PREFIX @ contextId),
              ConsoleError (''[contextStorage] Snapshot version mismatch for '' @ contextId)]"]
    by (auto simp add: loadSnapshot_def Let_def emit_def split: option.splits)
qed

lemma failSwitch_effects:
  "effects (snd (snd (failSwitch error state w))) = effects w @ [ConsoleError ''[contextSlice] Failed to switch context:'']"
  by (simp add: failSwitch_def effects_emit)

lemma switchContext_effects:
  assumes "targetId \<noteq> activeContextId state"
  shows "\<exists>rest. effects (snd (snd (switchContext env fullReset targetId (state, w))))
     = effects w @ IdbSet (STORAGE_KEY_PREFIX @ activeContextId state) # rest
       \<and> ContextSwitch targetId \<in> set rest"
proof -
  let ?w1 = "saveSnapshot (env_faults env) (env_nowSave env) (activeContextId state)
      (captureSnapshot state (activeContextId state) (env_nowCapture env)) w"
  let ?w3 = "emit GetRepositoryGroups (emit GetProjects (emit (ContextSwitch targetId) ?w1))"
  obtain r1 where r1: "effects ?w1 = effects w @ IdbSet (STORAGE_KEY_PREFIX @ activeContextId state) # r1"
    using effects_saveSnapshot by blast
  obtain r4 where r4: "effects (snd (loadSnapshot (env_faults env) (env_nowLoad env) targetId ?w3))
      = effects ?w3 @ r4"
    using effects_loadSnapshot by blast
  show ?thesis
    using assms r4
    by (auto simp add: switchContext_def Let_def failSwitch_effects effects_emit r1 failSwitch_def
        split: option.splits sum.splits prod.splits)
qed

lemma switchContext_ignores_flag:
  assumes "targetId \<noteq> activeContextId state"
  shows "switchContext env fullReset targetId (state\<lparr>isContextSwitching := b\<rparr>, w)
         = switchContext env fullReset targetId (state, w)"
  using assms by (simp add: switchContext_def captureSnapshot_def Let_def)

text \<open>
  Claim C2 says that a call of the switch operation arriving while the flag is set writes
  no snapshot, switches no backend and changes no state. \<^verbatim>\<open>switchContext\<close> does not read
  the flag: called for \<open>ssh-db1\<close> while a switch to \<open>ssh-db2\<close> is in flight, it saves a
  snapshot, switches the main process and makes \<open>ssh-db1\<close> the active context.
\<close>

theorem switch_in_flight_counterexample:
  "isContextSwitching busyState
   \<and> fst (switchContext okEnv id ''ssh-db1'' (busyState, emptyWorld)) = Switched
   \<and> effects (snd (snd (switchContext okEnv id ''ssh-db1'' (busyState, emptyWorld))))
       = [IdbSet ''context-snapshot:local'', ContextSwitch ''ssh-db1'', GetProjects,
          GetRepositoryGroups, IdbGet ''context-snapshot:ssh-db1'', FetchNotifications]
   \<and> idb (snd (snd (switchContext okEnv id ''ssh-db1'' (busyState, emptyWorld))))
         ''context-snapshot:local'' \<noteq> None
   \<and> activeContextId (fst (snd (switchContext okEnv id ''ssh-db1'' (busyState, emptyWorld))))
       = ''ssh-db1''"
  by (simp add: switchContext_def Let_def okEnv_def busyState_def localState_def emptyWorld_def
      saveSnapshot_def loadSnapshot_def emit_def noFaults_def STORAGE_KEY_PREFIX_def
      getEmptyContextState_def)

text \<open>
  Claim C2, amended. The flag is checked by the callers: while it is set, the context list
  of ContextSwitcher and WorkspaceIndicator is not rendered, and a click on a context does
  nothing. \<^verbatim>\<open>switchContext\<close> itself, called for a context other than the active one, does
  the same whether the flag is set or not: it saves a snapshot and switches the main
  process.
\<close>

theorem switch_in_flight_guarded_by_callers:
  "(isContextSwitching state \<longrightarrow>
      clickContextItem env fullReset ctxId (isOpen, state, w) = (None, isOpen, state, w))
   \<and> (targetId \<noteq> activeContextId state \<longrightarrow>
      switchContext env fullReset targetId (state\<lparr>isContextSwitching := True\<rparr>, w)
        = switchContext env fullReset targetId (state\<lparr>isContextSwitching := False\<rparr>, w)
      \<and> IdbSet (STORAGE_KEY_PREFIX @ activeContextId state)
          \<in> set (effects (snd (snd (switchContext env fullReset targetId (state, w)))))
      \<and> ContextSwitch targetId
          \<in> set (effects (snd (snd (switchContext env fullReset targetId (state, w))))))"
proof (intro conjI impI)
  assume "isContextSwitching state"
  then show "clickContextItem env fullReset ctxId (isOpen, state, w) = (None, isOpen, state, w)"
    by (simp add: clickContextItem_def contextItemRendered_def)
next
  assume t: "targetId \<noteq> activeContextId state"
  show "switchContext env fullReset targetId (state\<lparr>isContextSwitching := True\<rparr>, w)
        = switchContext env fullReset targetId (state\<lparr>isContextSwitching := False\<rparr>, w)"
    by (simp only: switchContext_ignores_flag [OF t])
  from switchContext_effects [OF t, of env fullReset w]
  show "IdbSet (STORAGE_KEY_PREFIX @ activeContextId state)
          \<in> set (effects (snd (snd (switchContext env fullReset targetId (state, w)))))"
    and "ContextSwitch targetId
          \<in> set (effects (snd (snd (switchContext env fullReset targetId (state, w)))))"
    by auto
qed

theorem switch_in_flight_guarded_by_callers_witness:
  "isContextSwitching busyState
   \<and> clickContextItem okEnv id ''ssh-db1'' (True, busyState, emptyWorld)
       = (None, True, busyState, emptyWorld)
   \<and> ''ssh-db1'' \<noteq> activeContextId localState
   \<and> switchContext okEnv id ''ssh-db1'' (localState\<lparr>isContextSwitching := True\<rparr>, emptyWorld)
       = switchContext okEnv id ''ssh-db1'' (localState\<lparr>isContextSwitching := False\<rparr>, emptyWorld)
   \<and> ContextSwitch ''ssh-db1''
       \<in> set (effects (snd (snd (switchContext okEnv id ''ssh-db1'' (localState, emptyWorld)))))"
  using switch_in_flight_guarded_by_callers
      [of busyState okEnv id "''ssh-db1''" True emptyWorld "''ssh-db1''"]
    switch_in_flight_guarded_by_callers
      [of localState okEnv id "''ssh-db1''" True emptyWorld "''ssh-db1''"]
  by (simp add: busyState_def localState_def)

end
